theory Spec2Isabelle
  imports Main "HOL-Library.AList"
begin

section \<open>Python values, errors and dictionaries\<close>

text \<open>
  The module \<^verbatim>\<open>service/normalizer.py\<close> works on untyped Python values: the hits of
  the search index, the parsed parameters and the queries are dictionaries from strings
  to values. A dictionary is an association list in insertion order; strings are
  character lists, one character per Python character.
\<close>

datatype pyval =
    PNone
  | PBool bool
  | PInt int
  | PStr string
  | PList "pyval list"
  | PTuple "pyval list"
  | PDict "(string \<times> pyval) list"

type_synonym pydict = "(string \<times> pyval) list"

text \<open>
  The exceptions the module can meet. \<open>Unmodelled\<close> marks the two places where the
  model stops: ordering two lists or tuples, and printing a container with
  \<^verbatim>\<open>str.format\<close>; Python returns a value there that the model does not compute.
\<close>

datatype pyerror =
    KeyError
  | TypeError
  | ValueError
  | IndexError
  | AttributeError
  | DataConnectionException
  | Unmodelled

text \<open>Sequencing of steps that can raise: the first error ends the computation.\<close>

fun bindE :: "pyerror + 'a \<Rightarrow> ('a \<Rightarrow> pyerror + 'b) \<Rightarrow> pyerror + 'b" where
  "bindE (Inl err) f = Inl err"
| "bindE (Inr x) f = f x"

text \<open>\<^verbatim>\<open>d.get(k)\<close>, \<^verbatim>\<open>d[k]\<close>, \<^verbatim>\<open>d[k] = v\<close>, \<^verbatim>\<open>d.pop(k)\<close> and \<^verbatim>\<open>k in d\<close>.\<close>

definition dict_get :: "('k \<times> 'v) list \<Rightarrow> 'k \<Rightarrow> 'v option" where
  "dict_get d k = map_of d k"

definition dict_getitem :: "('k \<times> 'v) list \<Rightarrow> 'k \<Rightarrow> pyerror + 'v" where
  "dict_getitem d k = (case map_of d k of None \<Rightarrow> Inl KeyError | Some v \<Rightarrow> Inr v)"

definition dict_setitem :: "('k \<times> 'v) list \<Rightarrow> 'k \<Rightarrow> 'v \<Rightarrow> ('k \<times> 'v) list" where
  "dict_setitem d k v = AList.update k v d"

definition dict_pop :: "('k \<times> 'v) list \<Rightarrow> 'k \<Rightarrow> pyerror + ('v \<times> ('k \<times> 'v) list)" where
  "dict_pop d k =
     (case map_of d k of None \<Rightarrow> Inl KeyError | Some v \<Rightarrow> Inr (v, AList.delete k d))"

definition dict_keys :: "('k \<times> 'v) list \<Rightarrow> 'k list" where
  "dict_keys d = map fst d"

definition dict_contains :: "('k \<times> 'v) list \<Rightarrow> 'k \<Rightarrow> bool" where
  "dict_contains d k \<longleftrightarrow> k \<in> set (dict_keys d)"

text \<open>A dictionary display \<^verbatim>\<open>{k1: v1, k2: v2, ...}\<close>: a repeated key keeps its first
  position and its last value.\<close>

fun dict_display :: "('k \<times> 'v) list \<Rightarrow> ('k \<times> 'v) list \<Rightarrow> ('k \<times> 'v) list" where
  "dict_display acc [] = acc"
| "dict_display acc ((k, v) # kvs) = dict_display (dict_setitem acc k v) kvs"

text \<open>Subscripting a value with a string, \<^verbatim>\<open>x[k]\<close>: only a dictionary accepts it.\<close>

fun py_getitem :: "pyval \<Rightarrow> string \<Rightarrow> pyerror + pyval" where
  "py_getitem (PDict d) k = dict_getitem d k"
| "py_getitem _ k = Inl TypeError"

text \<open>Truth value of a Python value.\<close>

fun py_truthy :: "pyval \<Rightarrow> bool" where
  "py_truthy PNone = False"
| "py_truthy (PBool b) = b"
| "py_truthy (PInt i) = (i \<noteq> 0)"
| "py_truthy (PStr s) = (s \<noteq> [])"
| "py_truthy (PList xs) = (xs \<noteq> [])"
| "py_truthy (PTuple xs) = (xs \<noteq> [])"
| "py_truthy (PDict d) = (d \<noteq> [])"

text \<open>
  The comparison \<^verbatim>\<open>a <= b\<close>. Integers and booleans compare as numbers, two strings
  character by character; \<^verbatim>\<open>None\<close>, a dictionary or operands of different kinds raise
  \<^verbatim>\<open>TypeError\<close>.
\<close>

fun py_number :: "pyval \<Rightarrow> int option" where
  "py_number (PInt i) = Some i"
| "py_number (PBool b) = Some (if b then 1 else 0)"
| "py_number _ = None"

fun str_le :: "string \<Rightarrow> string \<Rightarrow> bool" where
  "str_le [] t = True"
| "str_le (c # s) [] = False"
| "str_le (c # s) (d # t) =
     (if (of_char c :: nat) < of_char d then True
      else if (of_char d :: nat) < of_char c then False
      else str_le s t)"

fun py_le :: "pyval \<Rightarrow> pyval \<Rightarrow> pyerror + bool" where
  "py_le (PStr s) (PStr t) = Inr (str_le s t)"
| "py_le (PList xs) (PList ys) = Inl Unmodelled"
| "py_le (PTuple xs) (PTuple ys) = Inl Unmodelled"
| "py_le a b =
     (case (py_number a, py_number b) of
        (Some x, Some y) \<Rightarrow> Inr (x \<le> y)
      | _ \<Rightarrow> Inl TypeError)"

text \<open>The text \<^verbatim>\<open>'{}'.format(x)\<close> of a scalar value.\<close>

definition digit_char :: "nat \<Rightarrow> char" where
  "digit_char d = ''0123456789'' ! d"

function digits_of :: "nat \<Rightarrow> string" where
  "digits_of n =
     (if n < 10 then [digit_char n]
      else digits_of (n div 10) @ [digit_char (n mod 10)])"
  by pat_completeness auto
termination
  by (relation "measure id") auto

declare digits_of.simps [simp del]

definition str_of_int :: "int \<Rightarrow> string" where
  "str_of_int i = (if i < 0 then CHR ''-'' # digits_of (nat (- i)) else digits_of (nat i))"

fun py_format :: "pyval \<Rightarrow> pyerror + string" where
  "py_format PNone = Inr ''None''"
| "py_format (PBool b) = Inr (if b then ''True'' else ''False'')"
| "py_format (PInt i) = Inr (str_of_int i)"
| "py_format (PStr s) = Inr s"
| "py_format _ = Inl Unmodelled"

text \<open>\<^verbatim>\<open>s.split(',')\<close> and \<^verbatim>\<open>','.join(parts)\<close>.\<close>

fun split_comma :: "string \<Rightarrow> string list" where
  "split_comma [] = [[]]"
| "split_comma (c # s) =
     (if c = CHR '','' then [] # split_comma s
      else (case split_comma s of
              [] \<Rightarrow> [[c]]
            | p # ps \<Rightarrow> (c # p) # ps))"

fun join_comma :: "string list \<Rightarrow> string" where
  "join_comma [] = []"
| "join_comma [p] = p"
| "join_comma (p # q # ps) = p @ '','' @ join_comma (q # ps)"


section \<open>Names\<close>

text \<open>
  The module reads every field, index and source name from \<^verbatim>\<open>service.names\<close>
  (imported as \<^verbatim>\<open>N\<close>), which is not part of the sources at hand. The names are
  therefore a parameter \<open>N\<close> of the model: \<open>N N_GEOM\<close> is the string \<^verbatim>\<open>N.GEOM\<close>.
\<close>

datatype name =
    N_STATES | N_DEPARTMENTS | N_MUNICIPALITIES | N_LOCALITIES | N_STREETS
  | N_ADDRESSES | N_PLACE | N_PLACES
  | N_SOURCE_IGN | N_SOURCE_BAHRA | N_SOURCE_INDEC
  | N_ID | N_NAME | N_STATE | N_DEPT | N_MUN | N_EXACT | N_ORDER | N_FIELDS
  | N_OFFSET | N_FLATTEN | N_FORMAT | N_CSV_FIELDS | N_SOURCE | N_ROAD_TYPE
  | N_START | N_END | N_LEFT | N_RIGHT | N_FULL_NAME | N_DOOR_NUM | N_GEOM
  | N_LOCATION | N_LOCATION_LAT | N_LOCATION_LON | N_LAT | N_LON | N_ADDRESS
  | N_START_R | N_END_L

type_synonym names = "name \<Rightarrow> string"

section \<open>Sources and key translation\<close>

definition get_index_source :: "names \<Rightarrow> string \<Rightarrow> pyerror + string" where
  "get_index_source N index =
     (if index \<in> set [N N_STATES, N N_DEPARTMENTS, N N_MUNICIPALITIES] then Inr (N N_SOURCE_IGN)
      else if index = N N_LOCALITIES then Inr (N N_SOURCE_BAHRA)
      else if index = N N_STREETS then Inr (N N_SOURCE_INDEC)
      else Inl ValueError)"

text \<open>
  The comprehension of \<open>translate_keys\<close> visits the items of \<open>d\<close> in order and stores
  each kept one under its new key; \<open>translate_items\<close> is that loop, \<open>acc\<close> the
  dictionary built so far.
\<close>

definition translate_key :: "('k \<rightharpoonup> 'k) \<Rightarrow> 'k \<Rightarrow> 'k" where
  "translate_key translations key =
     (case translations key of None \<Rightarrow> key | Some key' \<Rightarrow> key')"

fun translate_items ::
  "('k \<rightharpoonup> 'k) \<Rightarrow> 'k list \<Rightarrow> ('k \<times> 'v) list \<Rightarrow> ('k \<times> 'v) list \<Rightarrow> ('k \<times> 'v) list" where
  "translate_items translations ignore acc [] = acc"
| "translate_items translations ignore acc ((key, v) # items) =
     translate_items translations ignore
       (if key \<notin> set ignore then dict_setitem acc (translate_key translations key) v else acc)
       items"

definition translate_keys ::
  "('k \<times> 'v) list \<Rightarrow> ('k \<rightharpoonup> 'k) \<Rightarrow> 'k list option \<Rightarrow> ('k \<times> 'v) list" where
  "translate_keys d translations ignore =
     (let ignore = (case ignore of None \<Rightarrow> [] | Some ks \<Rightarrow> if ks = [] then [] else ks)
      in translate_items translations ignore [] d)"

section \<open>Street extents\<close>

text \<open>
  The loop over the four combinations. The test \<^verbatim>\<open>start <= number <= end\<close> compares
  \<open>start\<close> with \<open>number\<close> first and \<open>number\<close> with \<open>end\<close> only when the first
  comparison holds; either comparison can raise.
\<close>

fun first_extent :: "(pyval \<times> pyval) list \<Rightarrow> pyval \<Rightarrow> pyerror + (pyval \<times> pyval)" where
  "first_extent [] number = Inr (PNone, PNone)"
| "first_extent ((start, finish) # combinations) number =
     (case py_le start number of
        Inl err \<Rightarrow> Inl err
      | Inr False \<Rightarrow> first_extent combinations number
      | Inr True \<Rightarrow>
          (case py_le number finish of
             Inl err \<Rightarrow> Inl err
           | Inr False \<Rightarrow> first_extent combinations number
           | Inr True \<Rightarrow> Inr (start, finish)))"

text \<open>\<^verbatim>\<open>door_nums[a][b]\<close>.\<close>

definition door_num :: "pyval \<Rightarrow> string \<Rightarrow> string \<Rightarrow> pyerror + pyval" where
  "door_num door_nums a b = bindE (py_getitem door_nums a) (\<lambda>side. py_getitem side b)"

definition street_extents :: "names \<Rightarrow> pyval \<Rightarrow> pyval \<Rightarrow> pyerror + (pyval \<times> pyval)" where
  "street_extents N door_nums number =
     bindE (door_num door_nums (N N_START) (N N_RIGHT)) (\<lambda>start_r.
     bindE (door_num door_nums (N N_START) (N N_LEFT)) (\<lambda>start_l.
     bindE (door_num door_nums (N N_END) (N N_RIGHT)) (\<lambda>end_r.
     bindE (door_num door_nums (N N_END) (N N_LEFT)) (\<lambda>end_l.
     first_extent [(start_r, end_l), (start_l, end_r), (start_r, end_r), (start_l, end_l)]
       number))))"


section \<open>The world outside the module\<close>

text \<open>
  Search results as the module reads them (\<^verbatim>\<open>result.hits\<close>, \<^verbatim>\<open>result.total\<close>,
  \<^verbatim>\<open>result.offset\<close>); their class belongs to \<^verbatim>\<open>service.data\<close>.
\<close>

record SearchResult =
  hits :: "pydict list"
  total_res :: int
  offset_res :: int

text \<open>
  Modelled from the spec: the truth value of a result object, which \<open>process_place_queries\<close>
  tests with \<^verbatim>\<open>if dept_result\<close>. The class is not in the sources; a point query yields
  zero or one match, and the result counts as false exactly when it has no match.
\<close>

definition result_truthy :: "SearchResult \<Rightarrow> bool" where
  "result_truthy r \<longleftrightarrow> hits r \<noteq> []"

type_synonym es = nat
type_synonym pool = nat
type_synonym conn = nat

text \<open>What the module does to the outside, in the order it does it.\<close>

datatype es_call =
    SearchEntities es string "pydict list"
  | SearchStreets es "pydict list"
  | SearchPlaces es string "pydict list"

datatype pg_event =
    GetConn pool conn
  | PutConn pool conn
  | StreetNumberLocation conn pyval pyval pyval pyval

text \<open>
  The state a request runs in: the two handles kept on \<^verbatim>\<open>current_app\<close> (absent until
  first use), the calls made to the search index, the events on the relational store,
  the resource names passed to \<^verbatim>\<open>logger.exception\<close>, and the heap of the list objects
  that a \<open>QueryResult\<close> refers to: a reference is a position in the heap.
\<close>

type_synonym ref = nat

record world =
  elasticsearch :: "es option"
  postgres_pool :: "pool option"
  es_calls :: "es_call list"
  pg_events :: "pg_event list"
  log :: "string list"
  heap :: "pydict list list"

text \<open>
  Modelled from the spec: the parsers of \<^verbatim>\<open>service.params\<close>, which are not in the
  sources. A parser returns the parsed parameters or raises
  \<^verbatim>\<open>ParameterParsingException\<close> with its \<^verbatim>\<open>errors\<close>: a flat list of field errors for
  one parameter set, a list of such lists, one per item, for a bulk body.
\<close>

type_synonym param_error = pyval

record param_parser =
  parse_get_params :: "pydict \<Rightarrow> param_error list + pydict"
  parse_post_params :: "pydict \<Rightarrow> pyval \<Rightarrow> string \<Rightarrow> param_error list list + pydict list"

text \<open>
  The collaborators of the module: the functions of \<^verbatim>\<open>service.data\<close> (applied to the
  configuration where they take it), the connection pool, the parsers of
  \<^verbatim>\<open>service.params\<close> and the tables of \<^verbatim>\<open>service.formatter\<close>. The pool hands out
  a connection that may depend on the events so far; a pool that has none to give is
  outside the model.
\<close>

record env =
  elasticsearch_connection :: "pyerror + es"
  postgres_db_connection_pool :: "pyerror + pool"
  getconn :: "pool \<Rightarrow> pg_event list \<Rightarrow> conn"
  search_entities :: "es \<Rightarrow> string \<Rightarrow> pydict list \<Rightarrow> pyerror + SearchResult list"
  search_streets :: "es \<Rightarrow> pydict list \<Rightarrow> pyerror + SearchResult list"
  search_places :: "es \<Rightarrow> string \<Rightarrow> pydict list \<Rightarrow> pyerror + SearchResult list"
  street_number_location :: "conn \<Rightarrow> pyval \<Rightarrow> pyval \<Rightarrow> pyval \<Rightarrow> pyval \<Rightarrow> pyerror + pyval"
  PARAMS_STATES :: param_parser
  PARAMS_DEPARTMENTS :: param_parser
  PARAMS_MUNICIPALITIES :: param_parser
  PARAMS_LOCALITIES :: param_parser
  PARAMS_STREETS :: param_parser
  PARAMS_ADDRESSES :: param_parser
  PARAMS_PLACE :: param_parser
  ENDPOINT_CSV_FIELDS :: "string \<rightharpoonup> pyval"
  STREETS_CSV_FIELDS :: pyval
  ADDRESSES_CSV_FIELDS :: pyval

text \<open>The request: \<^verbatim>\<open>request.method\<close>, \<^verbatim>\<open>request.args\<close> and \<^verbatim>\<open>request.json\<close>.\<close>

record request =
  http_method :: string
  args :: pydict
  json :: pyval

text \<open>A \<open>QueryResult\<close> object: its four attributes. The entities are a list object,
  held by reference (see the section on \<open>QueryResult\<close> below).\<close>

record QueryResult =
  entities_attr :: ref
  iterable_attr :: bool
  total_attr :: int
  offset_attr :: int

text \<open>The responses, named after the functions of \<^verbatim>\<open>service.formatter\<close> that build them.\<close>

datatype response =
    create_ok_response string QueryResult pydict
  | create_ok_response_bulk string "QueryResult list" "pydict list"
  | create_param_error_response_single "param_error list"
  | create_param_error_response_bulk "param_error list list"
  | create_internal_error_response

text \<open>A computation that reads and changes the world and returns a value or raises.\<close>

type_synonym 'a run = "world \<Rightarrow> (pyerror + 'a) \<times> world"

definition returnW :: "'a \<Rightarrow> 'a run" where
  "returnW x w = (Inr x, w)"

definition liftE :: "pyerror + 'a \<Rightarrow> 'a run" where
  "liftE r w = (r, w)"

definition bindW :: "'a run \<Rightarrow> ('a \<Rightarrow> 'b run) \<Rightarrow> 'b run" where
  "bindW m f w = (case m w of (Inl err, w') \<Rightarrow> (Inl err, w') | (Inr x, w') \<Rightarrow> f x w')"

text \<open>\<^verbatim>\<open>xs[0]\<close>.\<close>

definition first_item :: "'a list \<Rightarrow> pyerror + 'a" where
  "first_item xs = (case xs of [] \<Rightarrow> Inl IndexError | x # _ \<Rightarrow> Inr x)"

definition get_elasticsearch :: "env \<Rightarrow> es run" where
  "get_elasticsearch E w =
     (case elasticsearch w of
        Some handle \<Rightarrow> (Inr handle, w)
      | None \<Rightarrow>
          (case elasticsearch_connection E of
             Inl err \<Rightarrow> (Inl err, w)
           | Inr handle \<Rightarrow> (Inr handle, w\<lparr>elasticsearch := Some handle\<rparr>)))"

definition get_postgres_db_connection_pool :: "env \<Rightarrow> pool run" where
  "get_postgres_db_connection_pool E w =
     (case postgres_pool w of
        Some p \<Rightarrow> (Inr p, w)
      | None \<Rightarrow>
          (case postgres_db_connection_pool E of
             Inl err \<Rightarrow> (Inl err, w)
           | Inr p \<Rightarrow> (Inr p, w\<lparr>postgres_pool := Some p\<rparr>)))"

text \<open>
  The context manager: \<^verbatim>\<open>pool.getconn()\<close>, the body of the \<^verbatim>\<open>with\<close> statement, and
  \<^verbatim>\<open>pool.putconn(connection)\<close> in the \<^verbatim>\<open>finally\<close> clause, whatever the body did.
\<close>

definition get_postgres_db_connection :: "env \<Rightarrow> pool \<Rightarrow> (conn \<Rightarrow> 'a run) \<Rightarrow> 'a run" where
  "get_postgres_db_connection E p body w =
     (let connection = getconn E p (pg_events w);
          w1 = w\<lparr>pg_events := pg_events w @ [GetConn p connection]\<rparr>;
          (r, w2) = body connection w1
      in (r, w2\<lparr>pg_events := pg_events w2 @ [PutConn p connection]\<rparr>))"

text \<open>The calls into \<^verbatim>\<open>service.data\<close>, each recorded in the world.\<close>

definition data_search_entities :: "env \<Rightarrow> es \<Rightarrow> string \<Rightarrow> pydict list \<Rightarrow> SearchResult list run" where
  "data_search_entities E handle name queries w =
     (search_entities E handle name queries,
      w\<lparr>es_calls := es_calls w @ [SearchEntities handle name queries]\<rparr>)"

definition data_search_streets :: "env \<Rightarrow> es \<Rightarrow> pydict list \<Rightarrow> SearchResult list run" where
  "data_search_streets E handle queries w =
     (search_streets E handle queries,
      w\<lparr>es_calls := es_calls w @ [SearchStreets handle queries]\<rparr>)"

definition data_search_places :: "env \<Rightarrow> es \<Rightarrow> string \<Rightarrow> pydict list \<Rightarrow> SearchResult list run" where
  "data_search_places E handle index queries w =
     (search_places E handle index queries,
      w\<lparr>es_calls := es_calls w @ [SearchPlaces handle index queries]\<rparr>)"

definition data_street_number_location ::
  "env \<Rightarrow> conn \<Rightarrow> pyval \<Rightarrow> pyval \<Rightarrow> pyval \<Rightarrow> pyval \<Rightarrow> pyval run" where
  "data_street_number_location E connection geom number start finish w =
     (street_number_location E connection geom number start finish,
      w\<lparr>pg_events := pg_events w @ [StreetNumberLocation connection geom number start finish]\<rparr>)"

text \<open>
  \<^verbatim>\<open>try: ... except data.DataConnectionException:\<close> with the handler of the four
  \<open>process_\<close> functions: log the resource and answer with the internal error response.
  Any other exception passes through.
\<close>

definition except_DataConnectionException :: "string \<Rightarrow> response run \<Rightarrow> response run" where
  "except_DataConnectionException resource body w =
     (case body w of
        (Inl DataConnectionException, w') \<Rightarrow>
          (Inr create_internal_error_response, w'\<lparr>log := log w' @ [resource]\<rparr>)
      | (r, w') \<Rightarrow> (r, w'))"


section \<open>QueryResult\<close>

text \<open>
  The entities of a \<open>QueryResult\<close> are a Python list object. \<^verbatim>\<open>__init__\<close> keeps the
  reference it is given (\<^verbatim>\<open>self._entities = entities\<close>) and the property
  \<^verbatim>\<open>entities\<close> returns that same reference, so the list is shared with whoever else
  holds it. A \<open>QueryResult\<close> therefore holds a reference into the heap, and what its
  list contains is read from the world. The other three attributes are numbers and a
  boolean; the class exposes all four through properties that have no setter.
\<close>

text \<open>The list object behind a reference, as it is in a given world.\<close>

definition list_at :: "world \<Rightarrow> ref \<Rightarrow> pydict list" where
  "list_at w r = (if r < length (heap w) then heap w ! r else [])"

text \<open>A list display \<^verbatim>\<open>[x, ...]\<close> or the list object a name already refers to, when
  its reference is taken: a new position of the heap.\<close>

definition new_list :: "pydict list \<Rightarrow> ref run" where
  "new_list xs w = (Inr (length (heap w)), w\<lparr>heap := heap w @ [xs]\<rparr>)"

text \<open>\<^verbatim>\<open>__init__(self, entities, iterable=False, total=1, offset=0)\<close> with all four
  arguments given.\<close>

definition init_QueryResult :: "ref \<Rightarrow> bool \<Rightarrow> int \<Rightarrow> int \<Rightarrow> QueryResult" where
  "init_QueryResult es it t off =
     \<lparr>entities_attr = es, iterable_attr = it, total_attr = t, offset_attr = off\<rparr>"

text \<open>\<^verbatim>\<open>cls([entity])\<close>: the list display makes a new list.\<close>

definition from_single_entity :: "pydict \<Rightarrow> QueryResult run" where
  "from_single_entity entity =
     bindW (new_list [entity]) (\<lambda>es. returnW (init_QueryResult es False 1 0))"

text \<open>\<^verbatim>\<open>cls(entities, iterable=True, total=total, offset=offset)\<close>: the caller's list
  is kept, not copied.\<close>

definition from_entity_list :: "ref \<Rightarrow> int \<Rightarrow> int \<Rightarrow> QueryResult run" where
  "from_entity_list es t off = returnW (init_QueryResult es True t off)"

text \<open>The properties \<^verbatim>\<open>entities\<close>, \<^verbatim>\<open>total\<close>, \<^verbatim>\<open>offset\<close>, \<^verbatim>\<open>iterable\<close> and the
  method \<^verbatim>\<open>first_entity\<close>.\<close>

definition entities :: "QueryResult \<Rightarrow> ref run" where
  "entities self = returnW (entities_attr self)"

definition first_entity :: "QueryResult \<Rightarrow> pydict run" where
  "first_entity self w = (first_item (list_at w (entities_attr self)), w)"

definition total_qr :: "QueryResult \<Rightarrow> int run" where
  "total_qr self = returnW (total_attr self)"

definition offset_qr :: "QueryResult \<Rightarrow> int run" where
  "offset_qr self = returnW (offset_attr self)"

definition iterable :: "QueryResult \<Rightarrow> bool run" where
  "iterable self = returnW (iterable_attr self)"

text \<open>A list comprehension whose element expression is a computation.\<close>

fun mapW :: "('a \<Rightarrow> 'b run) \<Rightarrow> 'a list \<Rightarrow> 'b list run" where
  "mapW f [] w = (Inr [], w)"
| "mapW f (x # xs) w =
     (case f x w of
        (Inl err, w') \<Rightarrow> (Inl err, w')
      | (Inr y, w') \<Rightarrow>
          (case mapW f xs w' of
             (Inl err, w'') \<Rightarrow> (Inl err, w'')
           | (Inr ys, w'') \<Rightarrow> (Inr (y # ys), w'')))"

section \<open>Simple entities\<close>

text \<open>
  The format rules \<^verbatim>\<open>{key: params[key] for key in keys if key in params}\<close>;
  \<open>acc\<close> is the dictionary built so far.
\<close>

fun select_keys :: "pydict \<Rightarrow> pydict \<Rightarrow> string list \<Rightarrow> pydict" where
  "select_keys parsed acc [] = acc"
| "select_keys parsed acc (key # keys) =
     select_keys parsed
       (case map_of parsed key of None \<Rightarrow> acc | Some v \<Rightarrow> dict_setitem acc key v)
       keys"

text \<open>The loop \<^verbatim>\<open>for match in result.hits: match[N.SOURCE] = source\<close>. The hits are
  separate dictionaries, so the loop changes each one on its own.\<close>

definition tag_source :: "names \<Rightarrow> string \<Rightarrow> SearchResult \<Rightarrow> SearchResult" where
  "tag_source N source result =
     result\<lparr>hits := map (\<lambda>match. dict_setitem match (N N_SOURCE) (PStr source)) (hits result)\<rparr>"

text \<open>\<^verbatim>\<open>QueryResult.from_entity_list(result.hits, result.total, result.offset)\<close>: the
  list object \<^verbatim>\<open>result.hits\<close> is passed by reference. Until here only \<open>result\<close>
  refers to it and the model holds it as a value; here it enters the heap.\<close>

definition query_result_of :: "SearchResult \<Rightarrow> QueryResult run" where
  "query_result_of result =
     bindW (new_list (hits result)) (\<lambda>hits_ref.
     from_entity_list hits_ref (total_res result) (offset_res result))"

definition process_entity_single ::
  "names \<Rightarrow> env \<Rightarrow> request \<Rightarrow> string \<Rightarrow> param_parser \<Rightarrow> (string \<rightharpoonup> string) \<Rightarrow> response run" where
  "process_entity_single N E request name param_parser key_translations =
     (case parse_get_params param_parser (args request) of
        Inl errors \<Rightarrow> returnW (create_param_error_response_single errors)
      | Inr qs_params \<Rightarrow>
          (let query = translate_keys qs_params key_translations
                         (Some [N N_FLATTEN, N N_FORMAT]);
               fmt = select_keys qs_params [] [N N_FLATTEN, N N_FIELDS, N N_FORMAT]
           in bindW (liftE (case ENDPOINT_CSV_FIELDS E name of
                              None \<Rightarrow> Inl KeyError | Some csv \<Rightarrow> Inr csv)) (\<lambda>csv.
              let fmt = dict_setitem fmt (N N_CSV_FIELDS) csv in
              bindW (get_elasticsearch E) (\<lambda>handle.
              bindW (data_search_entities E handle name [query]) (\<lambda>results.
              bindW (liftE (first_item results)) (\<lambda>result.
              bindW (liftE (get_index_source N name)) (\<lambda>source.
              bindW (query_result_of (tag_source N source result)) (\<lambda>query_result.
              returnW (create_ok_response name query_result fmt)))))))))"

text \<open>The loop of the bulk functions that turns each parameter set into a query and a
  format and appends them to the two lists.\<close>

definition entity_query_format ::
  "names \<Rightarrow> (string \<rightharpoonup> string) \<Rightarrow> pydict \<Rightarrow> pydict \<times> pydict" where
  "entity_query_format N key_translations parsed_params =
     (translate_keys parsed_params key_translations (Some [N N_FLATTEN, N N_FORMAT]),
      select_keys parsed_params [] [N N_FLATTEN, N N_FIELDS])"

definition process_entity_bulk ::
  "names \<Rightarrow> env \<Rightarrow> request \<Rightarrow> string \<Rightarrow> param_parser \<Rightarrow> (string \<rightharpoonup> string) \<Rightarrow> response run" where
  "process_entity_bulk N E request name param_parser key_translations =
     (case parse_post_params param_parser (args request) (json request) name of
        Inl errors \<Rightarrow> returnW (create_param_error_response_bulk errors)
      | Inr body_params \<Rightarrow>
          (let queries = map (\<lambda>parsed_params.
                                fst (entity_query_format N key_translations parsed_params))
                           body_params;
               formats = map (\<lambda>parsed_params.
                                snd (entity_query_format N key_translations parsed_params))
                           body_params
           in bindW (get_elasticsearch E) (\<lambda>handle.
              bindW (data_search_entities E handle name queries) (\<lambda>results.
              bindW (liftE (get_index_source N name)) (\<lambda>source.
              bindW (mapW query_result_of (map (tag_source N source) results))
                (\<lambda>query_results.
              returnW (create_ok_response_bulk name query_results formats)))))))"

definition process_entity ::
  "names \<Rightarrow> env \<Rightarrow> request \<Rightarrow> string \<Rightarrow> param_parser \<Rightarrow> (string \<rightharpoonup> string) \<Rightarrow> response run" where
  "process_entity N E request name param_parser key_translations =
     except_DataConnectionException name
       (if http_method request = ''GET''
        then process_entity_single N E request name param_parser key_translations
        else process_entity_bulk N E request name param_parser key_translations)"

definition process_state :: "names \<Rightarrow> env \<Rightarrow> request \<Rightarrow> response run" where
  "process_state N E request =
     process_entity N E request (N N_STATES) (PARAMS_STATES E)
       [N N_ID \<mapsto> ''entity_id'', N N_NAME \<mapsto> ''name'', N N_EXACT \<mapsto> ''exact'',
        N N_ORDER \<mapsto> ''order'', N N_FIELDS \<mapsto> ''fields'', N N_OFFSET \<mapsto> ''offset'']"

definition process_department :: "names \<Rightarrow> env \<Rightarrow> request \<Rightarrow> response run" where
  "process_department N E request =
     process_entity N E request (N N_DEPARTMENTS) (PARAMS_DEPARTMENTS E)
       [N N_ID \<mapsto> ''entity_id'', N N_NAME \<mapsto> ''name'', N N_STATE \<mapsto> ''state'',
        N N_EXACT \<mapsto> ''exact'', N N_ORDER \<mapsto> ''order'', N N_FIELDS \<mapsto> ''fields'',
        N N_OFFSET \<mapsto> ''offset'']"

definition process_municipality :: "names \<Rightarrow> env \<Rightarrow> request \<Rightarrow> response run" where
  "process_municipality N E request =
     process_entity N E request (N N_MUNICIPALITIES) (PARAMS_MUNICIPALITIES E)
       [N N_ID \<mapsto> ''entity_id'', N N_NAME \<mapsto> ''name'', N N_STATE \<mapsto> ''state'',
        N N_DEPT \<mapsto> ''department'', N N_EXACT \<mapsto> ''exact'', N N_ORDER \<mapsto> ''order'',
        N N_FIELDS \<mapsto> ''fields'', N N_OFFSET \<mapsto> ''offset'']"

definition process_locality :: "names \<Rightarrow> env \<Rightarrow> request \<Rightarrow> response run" where
  "process_locality N E request =
     process_entity N E request (N N_LOCALITIES) (PARAMS_LOCALITIES E)
       [N N_ID \<mapsto> ''entity_id'', N N_NAME \<mapsto> ''name'', N N_STATE \<mapsto> ''state'',
        N N_DEPT \<mapsto> ''department'', N N_MUN \<mapsto> ''municipality'', N N_EXACT \<mapsto> ''exact'',
        N N_ORDER \<mapsto> ''order'', N N_FIELDS \<mapsto> ''fields'', N N_OFFSET \<mapsto> ''offset'']"

section \<open>Streets\<close>

definition build_street_query_format :: "names \<Rightarrow> env \<Rightarrow> pydict \<Rightarrow> pydict \<times> pydict" where
  "build_street_query_format N E parsed_params =
     (let query = translate_keys parsed_params
                    [N N_ID \<mapsto> ''street_id'', N N_NAME \<mapsto> ''road_name'',
                     N N_STATE \<mapsto> ''state'', N N_DEPT \<mapsto> ''department'',
                     N N_EXACT \<mapsto> ''exact'', N N_FIELDS \<mapsto> ''fields'',
                     N N_ROAD_TYPE \<mapsto> ''road_type'', N N_OFFSET \<mapsto> ''offset'',
                     N N_ORDER \<mapsto> ''order'']
                    (Some [N N_FLATTEN, N N_FORMAT]);
          fmt = select_keys parsed_params [] [N N_FLATTEN, N N_FIELDS, N N_FORMAT];
          fmt = dict_setitem fmt (N N_CSV_FIELDS) (STREETS_CSV_FIELDS E)
      in (query, fmt))"

definition process_street_single :: "names \<Rightarrow> env \<Rightarrow> request \<Rightarrow> response run" where
  "process_street_single N E request =
     (case parse_get_params (PARAMS_STREETS E) (args request) of
        Inl errors \<Rightarrow> returnW (create_param_error_response_single errors)
      | Inr qs_params \<Rightarrow>
          (let (query, fmt) = build_street_query_format N E qs_params
           in bindW (get_elasticsearch E) (\<lambda>handle.
              bindW (data_search_streets E handle [query]) (\<lambda>results.
              bindW (liftE (first_item results)) (\<lambda>result.
              bindW (liftE (get_index_source N (N N_STREETS))) (\<lambda>source.
              bindW (query_result_of (tag_source N source result)) (\<lambda>query_result.
              returnW (create_ok_response (N N_STREETS) query_result fmt))))))))"

definition process_street_bulk :: "names \<Rightarrow> env \<Rightarrow> request \<Rightarrow> response run" where
  "process_street_bulk N E request =
     (case parse_post_params (PARAMS_STREETS E) (args request) (json request) (N N_STREETS) of
        Inl errors \<Rightarrow> returnW (create_param_error_response_bulk errors)
      | Inr body_params \<Rightarrow>
          (let queries = map (\<lambda>parsed_params. fst (build_street_query_format N E parsed_params))
                           body_params;
               formats = map (\<lambda>parsed_params. snd (build_street_query_format N E parsed_params))
                           body_params
           in bindW (get_elasticsearch E) (\<lambda>handle.
              bindW (data_search_streets E handle queries) (\<lambda>results.
              bindW (liftE (get_index_source N (N N_STREETS))) (\<lambda>source.
              bindW (mapW query_result_of (map (tag_source N source) results))
                (\<lambda>query_results.
              returnW (create_ok_response_bulk (N N_STREETS) query_results formats)))))))"

definition process_street :: "names \<Rightarrow> env \<Rightarrow> request \<Rightarrow> response run" where
  "process_street N E request =
     except_DataConnectionException ''calles''
       (if http_method request = ''GET'' then process_street_single N E request
        else process_street_bulk N E request)"


section \<open>Addresses\<close>

text \<open>\<^verbatim>\<open>x in fields\<close> for a string \<open>x\<close>: membership in a list or tuple, a key of a
  dictionary, a substring of a string.\<close>

fun is_substring :: "string \<Rightarrow> string \<Rightarrow> bool" where
  "is_substring x [] = (x = [])"
| "is_substring x (c # s) = (take (length x) (c # s) = x \<or> is_substring x s)"

fun py_contains :: "pyval \<Rightarrow> string \<Rightarrow> pyerror + bool" where
  "py_contains (PList xs) x = Inr (PStr x \<in> set xs)"
| "py_contains (PTuple xs) x = Inr (PStr x \<in> set xs)"
| "py_contains (PDict d) x = Inr (dict_contains d x)"
| "py_contains (PStr s) x = Inr (is_substring x s)"
| "py_contains _ x = Inl TypeError"

text \<open>\<^verbatim>\<open>v.split(',')\<close>: only a string has the method.\<close>

fun py_split_comma :: "pyval \<Rightarrow> pyerror + string list" where
  "py_split_comma (PStr s) = Inr (split_comma s)"
| "py_split_comma _ = Inl AttributeError"

text \<open>The three lines that put the number into the full name:
  \<^verbatim>\<open>parts = street[N.FULL_NAME].split(',')\<close>,
  \<^verbatim>\<open>parts[0] += ' {}'.format(number)\<close>,
  \<^verbatim>\<open>street[N.FULL_NAME] = ','.join(parts)\<close>.\<close>

definition add_number_to_parts :: "string list \<Rightarrow> string \<Rightarrow> pyerror + string list" where
  "add_number_to_parts parts text =
     (case parts of [] \<Rightarrow> Inl IndexError | p # ps \<Rightarrow> Inr ((p @ '' '' @ text) # ps))"

definition full_name_with_number :: "names \<Rightarrow> pyval \<Rightarrow> pydict \<Rightarrow> pyerror + pydict" where
  "full_name_with_number N number street =
     bindE (dict_getitem street (N N_FULL_NAME)) (\<lambda>full_name.
     bindE (py_split_comma full_name) (\<lambda>parts.
     bindE (py_format number) (\<lambda>text.
     bindE (add_number_to_parts parts text) (\<lambda>parts.
     Inr (dict_setitem street (N N_FULL_NAME) (PStr (join_comma parts)))))))"

text \<open>The body of the loop over the hits in \<open>build_addresses_result\<close>, for one street.\<close>

definition address_of_street ::
  "names \<Rightarrow> env \<Rightarrow> conn \<Rightarrow> pyval \<Rightarrow> pyval \<Rightarrow> string \<Rightarrow> pydict \<Rightarrow> pydict run" where
  "address_of_street N E connection flds number source street =
     bindW (liftE (py_contains flds (N N_FULL_NAME))) (\<lambda>wants_full_name.
     bindW (liftE (if wants_full_name then full_name_with_number N number street
                   else Inr street)) (\<lambda>street.
     bindW (liftE (dict_pop street (N N_DOOR_NUM))) (\<lambda>(door_nums, street).
     bindW (liftE (street_extents N door_nums number)) (\<lambda>(start, finish).
     bindW (liftE (dict_pop street (N N_GEOM))) (\<lambda>(geom, street).
     bindW (liftE (py_contains flds (N N_DOOR_NUM))) (\<lambda>wants_door_num.
     let street = (if wants_door_num then dict_setitem street (N N_DOOR_NUM) number
                   else street) in
     bindW (liftE (py_contains flds (N N_LOCATION_LAT))) (\<lambda>wants_lat.
     bindW (liftE (if wants_lat then Inr True
                   else py_contains flds (N N_LOCATION_LON))) (\<lambda>wants_location.
     bindW (if wants_location \<and> start \<noteq> PNone \<and> finish \<noteq> PNone
            then bindW (data_street_number_location E connection geom number start finish)
                   (\<lambda>loc. returnW (dict_setitem street (N N_LOCATION) loc))
            else returnW street) (\<lambda>street.
     returnW (dict_setitem street (N N_SOURCE) (PStr source)))))))))))"

fun address_of_streets ::
  "names \<Rightarrow> env \<Rightarrow> conn \<Rightarrow> pyval \<Rightarrow> pyval \<Rightarrow> string \<Rightarrow> pydict list \<Rightarrow> pydict list run" where
  "address_of_streets N E connection flds number source [] w = (Inr [], w)"
| "address_of_streets N E connection flds number source (street # streets) w =
     (case address_of_street N E connection flds number source street w of
        (Inl err, w') \<Rightarrow> (Inl err, w')
      | (Inr street', w') \<Rightarrow>
          (case address_of_streets N E connection flds number source streets w' of
             (Inl err, w'') \<Rightarrow> (Inl err, w'')
           | (Inr streets', w'') \<Rightarrow> (Inr (street' # streets'), w'')))"

text \<open>\<open>build_addresses_result\<close> changes the hits of \<open>result\<close> in place; the model returns
  the result with the new hits.\<close>

definition build_addresses_result ::
  "names \<Rightarrow> env \<Rightarrow> SearchResult \<Rightarrow> pydict \<Rightarrow> string \<Rightarrow> SearchResult run" where
  "build_addresses_result N E result query source =
     bindW (liftE (dict_getitem query ''fields'')) (\<lambda>flds.
     bindW (liftE (dict_getitem query ''number'')) (\<lambda>number.
     bindW (get_postgres_db_connection_pool E) (\<lambda>p.
     get_postgres_db_connection E p (\<lambda>connection.
       bindW (address_of_streets N E connection flds number source (hits result))
         (\<lambda>streets. returnW (result\<lparr>hits := streets\<rparr>))))))"

text \<open>Unpacking a value into two names, \<^verbatim>\<open>a, b = v\<close>.\<close>

fun py_iter :: "pyval \<Rightarrow> pyerror + pyval list" where
  "py_iter (PList xs) = Inr xs"
| "py_iter (PTuple xs) = Inr xs"
| "py_iter (PStr s) = Inr (map (\<lambda>c. PStr [c]) s)"
| "py_iter (PDict d) = Inr (map (\<lambda>k. PStr k) (dict_keys d))"
| "py_iter _ = Inl TypeError"

definition py_unpack2 :: "pyval \<Rightarrow> pyerror + (pyval \<times> pyval)" where
  "py_unpack2 v =
     bindE (py_iter v) (\<lambda>xs. case xs of [a, b] \<Rightarrow> Inr (a, b) | _ \<Rightarrow> Inl ValueError)"

text \<open>\<^verbatim>\<open>v + [x, y, z]\<close>: only a list can be extended by a list.\<close>

fun py_add_list :: "pyval \<Rightarrow> pyval list \<Rightarrow> pyerror + pyval" where
  "py_add_list (PList xs) ys = Inr (PList (xs @ ys))"
| "py_add_list _ ys = Inl TypeError"

definition build_address_query_format ::
  "names \<Rightarrow> env \<Rightarrow> pydict \<Rightarrow> pyerror + (pydict \<times> pydict)" where
  "build_address_query_format N E parsed_params =
     bindE (dict_pop parsed_params (N N_ADDRESS)) (\<lambda>(address, parsed_params).
     bindE (py_unpack2 address) (\<lambda>(road_name, number).
     let parsed_params = dict_setitem parsed_params ''road_name'' road_name;
         parsed_params = dict_setitem parsed_params ''number'' number;
         query = translate_keys parsed_params
                   [N N_DEPT \<mapsto> ''department'', N N_STATE \<mapsto> ''state'',
                    N N_EXACT \<mapsto> ''exact'', N N_ROAD_TYPE \<mapsto> ''road_type'',
                    N N_OFFSET \<mapsto> ''offset'', N N_ORDER \<mapsto> ''order'']
                   (Some [N N_FLATTEN, N N_FORMAT, N N_FIELDS]) in
     bindE (dict_getitem parsed_params (N N_FIELDS)) (\<lambda>requested.
     bindE (py_add_list requested [PStr (N N_GEOM), PStr (N N_START_R), PStr (N N_END_L)])
       (\<lambda>flds.
     let query = dict_setitem query ''fields'' flds;
         fmt = select_keys parsed_params [] [N N_FLATTEN, N N_FIELDS, N N_FORMAT];
         fmt = dict_setitem fmt (N N_CSV_FIELDS) (ADDRESSES_CSV_FIELDS E)
     in Inr (query, fmt)))))"

definition process_address_single :: "names \<Rightarrow> env \<Rightarrow> request \<Rightarrow> response run" where
  "process_address_single N E request =
     (case parse_get_params (PARAMS_ADDRESSES E) (args request) of
        Inl errors \<Rightarrow> returnW (create_param_error_response_single errors)
      | Inr qs_params \<Rightarrow>
          bindW (liftE (build_address_query_format N E qs_params)) (\<lambda>(query, fmt).
          bindW (get_elasticsearch E) (\<lambda>handle.
          bindW (data_search_streets E handle [query]) (\<lambda>results.
          bindW (liftE (first_item results)) (\<lambda>result.
          bindW (liftE (get_index_source N (N N_STREETS))) (\<lambda>source.
          bindW (build_addresses_result N E result query source) (\<lambda>result.
          bindW (query_result_of result) (\<lambda>query_result.
          returnW (create_ok_response (N N_ADDRESSES) query_result fmt)))))))))"

text \<open>The loop \<^verbatim>\<open>for parsed_params in body_params\<close> of the bulk function: the first
  parameter set that cannot be turned into a query ends it.\<close>

fun build_address_queries_formats ::
  "names \<Rightarrow> env \<Rightarrow> pydict list \<Rightarrow> pyerror + (pydict list \<times> pydict list)" where
  "build_address_queries_formats N E [] = Inr ([], [])"
| "build_address_queries_formats N E (parsed_params # body_params) =
     (case build_address_query_format N E parsed_params of
        Inl err \<Rightarrow> Inl err
      | Inr (query, fmt) \<Rightarrow>
          (case build_address_queries_formats N E body_params of
             Inl err \<Rightarrow> Inl err
           | Inr (queries, formats) \<Rightarrow> Inr (query # queries, fmt # formats)))"

text \<open>The loop \<^verbatim>\<open>for result, query in zip(results, queries)\<close>: it ends with the
  shorter list, and the results beyond it stay as they are.\<close>

fun build_addresses_results ::
  "names \<Rightarrow> env \<Rightarrow> SearchResult list \<Rightarrow> pydict list \<Rightarrow> string \<Rightarrow> SearchResult list run" where
  "build_addresses_results N E (result # results) (query # queries) source w =
     (case build_addresses_result N E result query source w of
        (Inl err, w') \<Rightarrow> (Inl err, w')
      | (Inr result', w') \<Rightarrow>
          (case build_addresses_results N E results queries source w' of
             (Inl err, w'') \<Rightarrow> (Inl err, w'')
           | (Inr results', w'') \<Rightarrow> (Inr (result' # results'), w'')))"
| "build_addresses_results N E results queries source w = (Inr results, w)"

definition process_address_bulk :: "names \<Rightarrow> env \<Rightarrow> request \<Rightarrow> response run" where
  "process_address_bulk N E request =
     (case parse_post_params (PARAMS_ADDRESSES E) (args request) (json request)
             (N N_ADDRESSES) of
        Inl errors \<Rightarrow> returnW (create_param_error_response_bulk errors)
      | Inr body_params \<Rightarrow>
          bindW (liftE (build_address_queries_formats N E body_params)) (\<lambda>(queries, formats).
          bindW (get_elasticsearch E) (\<lambda>handle.
          bindW (data_search_streets E handle queries) (\<lambda>results.
          bindW (liftE (get_index_source N (N N_STREETS))) (\<lambda>source.
          bindW (build_addresses_results N E results queries source) (\<lambda>results.
          bindW (mapW query_result_of results) (\<lambda>query_results.
          returnW (create_ok_response_bulk (N N_ADDRESSES) query_results formats))))))))"

definition process_address :: "names \<Rightarrow> env \<Rightarrow> request \<Rightarrow> response run" where
  "process_address N E request =
     except_DataConnectionException ''direcciones''
       (if http_method request = ''GET'' then process_address_single N E request
        else process_address_bulk N E request)"


section \<open>Places\<close>

definition empty_entity :: "names \<Rightarrow> pydict" where
  "empty_entity N = dict_display [] [(N N_ID, PNone), (N N_NAME, PNone)]"

text \<open>
  \<open>dept\<close> and \<open>muni\<close> are a dictionary or \<^verbatim>\<open>None\<close>. \<^verbatim>\<open>not dept\<close> holds for
  \<^verbatim>\<open>None\<close> and for the empty dictionary; \<^verbatim>\<open>muni or empty_entity.copy()\<close> is
  \<open>muni\<close> unless it is \<^verbatim>\<open>None\<close> or empty. In the second branch \<open>dept\<close> is a
  dictionary (the \<^verbatim>\<open>None\<close> case of the \<^verbatim>\<open>pop\<close> cannot be reached).
\<close>

definition dict_truthy :: "pydict option \<Rightarrow> bool" where
  "dict_truthy d \<longleftrightarrow> (case d of None \<Rightarrow> False | Some items \<Rightarrow> items \<noteq> [])"

definition or_empty_entity :: "names \<Rightarrow> pydict option \<Rightarrow> pyval" where
  "or_empty_entity N muni =
     (case muni of
        None \<Rightarrow> PDict (empty_entity N)
      | Some m \<Rightarrow> if m = [] then PDict (empty_entity N) else PDict m)"

definition build_place_result ::
  "names \<Rightarrow> pydict \<Rightarrow> pydict option \<Rightarrow> pydict option \<Rightarrow> pyerror + pydict" where
  "build_place_result N query dept muni =
     bindE (if \<not> dict_truthy dept then
              Inr (PDict (empty_entity N), PDict (empty_entity N), PDict (empty_entity N), PNone)
            else
              bindE (case dept of None \<Rightarrow> Inl AttributeError
                     | Some d \<Rightarrow> dict_pop d (N N_STATE)) (\<lambda>(state, d).
              bindE (get_index_source N (N N_DEPARTMENTS)) (\<lambda>source.
              Inr (state, PDict d, or_empty_entity N muni, PStr source))))
       (\<lambda>(state, dept, muni, source).
     bindE (dict_getitem query ''lat'') (\<lambda>lat.
     bindE (dict_getitem query ''lon'') (\<lambda>lon.
     Inr (dict_display []
            [(N N_STATE, state), (N N_DEPT, dept), (N N_MUN, muni),
             (N N_LAT, lat), (N N_LON, lon), (N N_SOURCE, source)]))))"

definition build_place_query_format :: "names \<Rightarrow> pydict \<Rightarrow> pydict \<times> pydict" where
  "build_place_query_format N parsed_params =
     (translate_keys parsed_params Map.empty (Some [N N_FLATTEN, N N_FORMAT]),
      select_keys parsed_params [] [N N_FLATTEN, N N_FIELDS, N N_FORMAT])"

text \<open>The two loops that build the department and the municipality queries: one
  dictionary per place query, with its coordinates and the fields of the layer.\<close>

fun layer_queries :: "pyval list \<Rightarrow> pydict list \<Rightarrow> pyerror + pydict list" where
  "layer_queries layer_fields [] = Inr []"
| "layer_queries layer_fields (query # queries) =
     (case dict_getitem query ''lat'' of
        Inl err \<Rightarrow> Inl err
      | Inr lat \<Rightarrow>
          (case dict_getitem query ''lon'' of
             Inl err \<Rightarrow> Inl err
           | Inr lon \<Rightarrow>
               (case layer_queries layer_fields queries of
                  Inl err \<Rightarrow> Inl err
                | Inr rest \<Rightarrow>
                    Inr (dict_display []
                           [(''lat'', lat), (''lon'', lon), (''fields'', PList layer_fields)]
                         # rest))))"

text \<open>\<^verbatim>\<open>result.hits[0] if result else None\<close>.\<close>

definition first_hit :: "SearchResult \<Rightarrow> pyerror + pydict option" where
  "first_hit result =
     (if result_truthy result then bindE (first_item (hits result)) (\<lambda>hit. Inr (Some hit))
      else Inr None)"

text \<open>The loop over \<^verbatim>\<open>zip(queries, dept_results, muni_results)\<close>.\<close>

fun build_place_results ::
  "names \<Rightarrow> pydict list \<Rightarrow> SearchResult list \<Rightarrow> SearchResult list \<Rightarrow> pyerror + pydict list" where
  "build_place_results N (query # queries) (dept_result # dept_results)
     (muni_result # muni_results) =
     (case first_hit dept_result of
        Inl err \<Rightarrow> Inl err
      | Inr dept \<Rightarrow>
          (case first_hit muni_result of
             Inl err \<Rightarrow> Inl err
           | Inr muni \<Rightarrow>
               (case build_place_result N query dept muni of
                  Inl err \<Rightarrow> Inl err
                | Inr place \<Rightarrow>
                    (case build_place_results N queries dept_results muni_results of
                       Inl err \<Rightarrow> Inl err
                     | Inr places \<Rightarrow> Inr (place # places)))))"
| "build_place_results N queries dept_results muni_results = Inr []"

definition process_place_queries :: "names \<Rightarrow> env \<Rightarrow> es \<Rightarrow> pydict list \<Rightarrow> pydict list run" where
  "process_place_queries N E handle queries =
     bindW (liftE (layer_queries [PStr (N N_ID), PStr (N N_NAME), PStr (N N_STATE)] queries))
       (\<lambda>dept_queries.
     bindW (data_search_places E handle (N N_DEPARTMENTS) dept_queries) (\<lambda>dept_results.
     bindW (liftE (layer_queries [PStr (N N_ID), PStr (N N_NAME)] queries)) (\<lambda>muni_queries.
     bindW (data_search_places E handle (N N_MUNICIPALITIES) muni_queries) (\<lambda>muni_results.
     liftE (build_place_results N queries dept_results muni_results)))))"

definition process_place_single :: "names \<Rightarrow> env \<Rightarrow> request \<Rightarrow> response run" where
  "process_place_single N E request =
     (case parse_get_params (PARAMS_PLACE E) (args request) of
        Inl errors \<Rightarrow> returnW (create_param_error_response_single errors)
      | Inr qs_params \<Rightarrow>
          (let (query, fmt) = build_place_query_format N qs_params
           in bindW (get_elasticsearch E) (\<lambda>handle.
              bindW (process_place_queries N E handle [query]) (\<lambda>places.
              bindW (liftE (first_item places)) (\<lambda>place.
              bindW (from_single_entity place) (\<lambda>query_result.
              returnW (create_ok_response (N N_PLACE) query_result fmt)))))))"

definition process_place_bulk :: "names \<Rightarrow> env \<Rightarrow> request \<Rightarrow> response run" where
  "process_place_bulk N E request =
     (case parse_post_params (PARAMS_PLACE E) (args request) (json request) (N N_PLACES) of
        Inl errors \<Rightarrow> returnW (create_param_error_response_bulk errors)
      | Inr body_params \<Rightarrow>
          (let queries = map (\<lambda>parsed_params. fst (build_place_query_format N parsed_params))
                           body_params;
               formats = map (\<lambda>parsed_params. snd (build_place_query_format N parsed_params))
                           body_params
           in bindW (get_elasticsearch E) (\<lambda>handle.
              bindW (process_place_queries N E handle queries) (\<lambda>places.
              bindW (mapW from_single_entity places) (\<lambda>query_results.
              returnW (create_ok_response_bulk (N N_PLACE) query_results formats))))))"

definition process_place :: "names \<Rightarrow> env \<Rightarrow> request \<Rightarrow> response run" where
  "process_place N E request =
     except_DataConnectionException ''ubicacion''
       (if http_method request = ''GET'' then process_place_single N E request
        else process_place_bulk N E request)"


section \<open>The specification's wording and concrete inputs\<close>

text \<open>
  The extents rule as the specification words it: the first of the four combinations,
  in the fixed order, with \<open>start \<le> n \<le> end\<close>, and two nulls when there is none.
\<close>

definition spec_extents :: "int \<Rightarrow> int \<Rightarrow> int \<Rightarrow> int \<Rightarrow> int \<Rightarrow> pyval \<times> pyval" where
  "spec_extents start_r start_l end_r end_l n =
     (case find (\<lambda>(s, e). s \<le> n \<and> n \<le> e)
             [(start_r, end_l), (start_l, end_r), (start_r, end_r), (start_l, end_l)] of
        Some (s, e) \<Rightarrow> (PInt s, PInt e)
      | None \<Rightarrow> (PNone, PNone))"

text \<open>The keys left out by the \<open>ignore\<close> argument of \<open>translate_keys\<close>.\<close>

definition ignored :: "'k list option \<Rightarrow> 'k set" where
  "ignored ignore = (case ignore of None \<Rightarrow> {} | Some ks \<Rightarrow> set ks)"

text \<open>An assignment of names for the concrete inputs below. The theorems hold for every
  assignment that meets the distinctness they ask for.\<close>

fun georef_names :: "name \<Rightarrow> string" where
  "georef_names N_STATES = ''provincias''"
| "georef_names N_DEPARTMENTS = ''departamentos''"
| "georef_names N_MUNICIPALITIES = ''municipios''"
| "georef_names N_LOCALITIES = ''localidades''"
| "georef_names N_STREETS = ''calles''"
| "georef_names N_ADDRESSES = ''direcciones''"
| "georef_names N_PLACE = ''ubicacion''"
| "georef_names N_PLACES = ''ubicaciones''"
| "georef_names N_SOURCE_IGN = ''IGN''"
| "georef_names N_SOURCE_BAHRA = ''BAHRA''"
| "georef_names N_SOURCE_INDEC = ''INDEC''"
| "georef_names N_ID = ''id''"
| "georef_names N_NAME = ''nombre''"
| "georef_names N_STATE = ''provincia''"
| "georef_names N_DEPT = ''departamento''"
| "georef_names N_MUN = ''municipio''"
| "georef_names N_EXACT = ''exacto''"
| "georef_names N_ORDER = ''orden''"
| "georef_names N_FIELDS = ''campos''"
| "georef_names N_OFFSET = ''inicio''"
| "georef_names N_FLATTEN = ''aplanar''"
| "georef_names N_FORMAT = ''formato''"
| "georef_names N_CSV_FIELDS = ''campos_csv''"
| "georef_names N_SOURCE = ''fuente''"
| "georef_names N_ROAD_TYPE = ''tipo''"
| "georef_names N_START = ''inicio''"
| "georef_names N_END = ''fin''"
| "georef_names N_LEFT = ''izquierda''"
| "georef_names N_RIGHT = ''derecha''"
| "georef_names N_FULL_NAME = ''nomenclatura''"
| "georef_names N_DOOR_NUM = ''altura''"
| "georef_names N_GEOM = ''geometria''"
| "georef_names N_LOCATION = ''ubicacion''"
| "georef_names N_LOCATION_LAT = ''ubicacion.lat''"
| "georef_names N_LOCATION_LON = ''ubicacion.lon''"
| "georef_names N_LAT = ''lat''"
| "georef_names N_LON = ''lon''"
| "georef_names N_ADDRESS = ''direccion''"
| "georef_names N_START_R = ''altura.inicio.derecha''"
| "georef_names N_END_L = ''altura.fin.izquierda''"

text \<open>The door numbers of the specification's example:
  \<^verbatim>\<open>start = {left: 100, right: 101}\<close>, \<^verbatim>\<open>end = {left: 200, right: 201}\<close>.\<close>

definition example_door_nums :: pyval where
  "example_door_nums =
     PDict [(''inicio'', PDict [(''izquierda'', PInt 100), (''derecha'', PInt 101)]),
            (''fin'', PDict [(''izquierda'', PInt 200), (''derecha'', PInt 201)])]"

text \<open>The same segment with no start number on the right side.\<close>

definition null_start_door_nums :: pyval where
  "null_start_door_nums =
     PDict [(''inicio'', PDict [(''izquierda'', PInt 100), (''derecha'', PNone)]),
            (''fin'', PDict [(''izquierda'', PInt 200), (''derecha'', PInt 201)])]"

text \<open>Two keys that one translation sends to the same key.\<close>

definition collision_dict :: pydict where
  "collision_dict = [(''a'', PInt 1), (''b'', PInt 2)]"

definition collision_translations :: "string \<rightharpoonup> string" where
  "collision_translations = [''a'' \<mapsto> ''b'']"

text \<open>Parameters of a state query and the translations of \<open>process_state\<close>.\<close>

definition example_state_params :: pydict where
  "example_state_params =
     [(''nombre'', PStr ''cordoba''), (''campos'', PList [PStr ''id'']),
      (''aplanar'', PBool True)]"

definition example_state_translations :: "string \<rightharpoonup> string" where
  "example_state_translations =
     [''id'' \<mapsto> ''entity_id'', ''nombre'' \<mapsto> ''name'', ''campos'' \<mapsto> ''fields'']"

text \<open>An entity, for the results built by hand.\<close>

definition example_entity :: pydict where
  "example_entity = [(''id'', PStr ''14''), (''nombre'', PStr ''cordoba'')]"

text \<open>The stub \<^verbatim>\<open>{id: None, name: None}\<close>, and the names of a place record, which
  must differ from each other for the record to have its six fields.\<close>

definition null_entity :: "names \<Rightarrow> pyval" where
  "null_entity N = PDict [(N N_ID, PNone), (N N_NAME, PNone)]"

definition place_names_distinct :: "names \<Rightarrow> bool" where
  "place_names_distinct N \<longleftrightarrow>
     distinct [N N_STATE, N N_DEPT, N N_MUN, N N_LAT, N N_LON, N N_SOURCE] \<and> N N_ID \<noteq> N N_NAME"

text \<open>A point, a department match with its embedded state, and a result with no
  match. Coordinates are carried through as they are.\<close>

definition example_point :: pydict where
  "example_point = [(''lat'', PStr ''-31.42''), (''lon'', PStr ''-64.18'')]"

definition example_state :: pyval where
  "example_state = PDict [(''id'', PStr ''14''), (''nombre'', PStr ''cordoba'')]"

definition example_dept :: pydict where
  "example_dept =
     [(''id'', PStr ''14014''), (''nombre'', PStr ''capital''), (''provincia'', example_state)]"

definition example_dept_result :: SearchResult where
  "example_dept_result = \<lparr>hits = [example_dept], total_res = 1, offset_res = 0\<rparr>"

definition example_no_match :: SearchResult where
  "example_no_match = \<lparr>hits = [], total_res = 0, offset_res = 0\<rparr>"

text \<open>
  The invariants of a \<open>QueryResult\<close>, read in the world in which the result is used:
  the attributes and the length of the list object it refers to.
\<close>

definition singular_invariant :: "world \<Rightarrow> QueryResult \<Rightarrow> bool" where
  "singular_invariant w qr \<longleftrightarrow>
     iterable_attr qr = False \<and> total_attr qr = 1 \<and> offset_attr qr = 0
     \<and> length (list_at w (entities_attr qr)) = 1"

definition list_invariant :: "world \<Rightarrow> QueryResult \<Rightarrow> bool" where
  "list_invariant w qr \<longleftrightarrow>
     iterable_attr qr = True \<and> int (length (list_at w (entities_attr qr))) \<le> total_attr qr"

text \<open>An invariant for every \<open>QueryResult\<close> that a response carries.\<close>

definition response_invariant ::
  "(world \<Rightarrow> QueryResult \<Rightarrow> bool) \<Rightarrow> world \<Rightarrow> response \<Rightarrow> bool" where
  "response_invariant P w response =
     (case response of
        create_ok_response name query_result fmt \<Rightarrow> P w query_result
      | create_ok_response_bulk name query_results formats \<Rightarrow> list_all (P w) query_results
      | _ \<Rightarrow> True)"

text \<open>A search result whose total is at least the number of its hits, and a search
  backend that returns only such results.\<close>

definition bounded_result :: "SearchResult \<Rightarrow> bool" where
  "bounded_result r \<longleftrightarrow> int (length (hits r)) \<le> total_res r"

definition results_bounded :: "env \<Rightarrow> bool" where
  "results_bounded E \<longleftrightarrow>
     (\<forall>handle name queries results.
        search_entities E handle name queries = Inr results \<longrightarrow> list_all bounded_result results)
     \<and> (\<forall>handle queries results.
        search_streets E handle queries = Inr results \<longrightarrow> list_all bounded_result results)"

text \<open>A world before any request, parsers that accept what they are given (a GET
  request unless it has the parameter \<^verbatim>\<open>error\<close>, a POST body that is a list of
  dictionaries), and collaborators that answer every query with one match.\<close>

definition world0 :: world where
  "world0 = \<lparr>elasticsearch = None, postgres_pool = None, es_calls = [], pg_events = [],
             log = [], heap = []\<rparr>"

definition example_parser :: param_parser where
  "example_parser =
     \<lparr>parse_get_params =
        (\<lambda>params. if dict_contains params ''error'' then Inl [PStr ''error''] else Inr params),
      parse_post_params =
        (\<lambda>params body name.
           case body of
             PList items \<Rightarrow> Inr (map (\<lambda>item. case item of PDict d \<Rightarrow> d | _ \<Rightarrow> []) items)
           | _ \<Rightarrow> Inl [[PStr ''error'']])\<rparr>"

definition example_result :: SearchResult where
  "example_result = \<lparr>hits = [example_entity], total_res = 1, offset_res = 0\<rparr>"

definition example_street :: pydict where
  "example_street =
     [(''nomenclatura'', PStr ''Callao,CABA''), (''altura'', example_door_nums),
      (''geometria'', PStr ''0102'')]"

definition example_street_result :: SearchResult where
  "example_street_result = \<lparr>hits = [example_street], total_res = 1, offset_res = 0\<rparr>"

definition example_location :: pyval where
  "example_location = PDict [(''lat'', PStr ''-34.60''), (''lon'', PStr ''-58.39'')]"

definition example_env :: env where
  "example_env =
     \<lparr>elasticsearch_connection = Inr 1,
      postgres_db_connection_pool = Inr 2,
      getconn = (\<lambda>p events. 7),
      search_entities = (\<lambda>handle name queries. Inr (map (\<lambda>query. example_result) queries)),
      search_streets = (\<lambda>handle queries. Inr (map (\<lambda>query. example_street_result) queries)),
      search_places =
        (\<lambda>handle index queries.
           Inr (map (\<lambda>query. if index = ''departamentos'' then example_dept_result
                             else example_no_match) queries)),
      street_number_location = (\<lambda>connection geom number start finish. Inr example_location),
      PARAMS_STATES = example_parser,
      PARAMS_DEPARTMENTS = example_parser,
      PARAMS_MUNICIPALITIES = example_parser,
      PARAMS_LOCALITIES = example_parser,
      PARAMS_STREETS = example_parser,
      PARAMS_ADDRESSES = example_parser,
      PARAMS_PLACE = example_parser,
      ENDPOINT_CSV_FIELDS = [''provincias'' \<mapsto> PList [PStr ''id'', PStr ''nombre'']],
      STREETS_CSV_FIELDS = PList [PStr ''id'', PStr ''nombre''],
      ADDRESSES_CSV_FIELDS = PList [PStr ''id'', PStr ''nombre'', PStr ''altura'']\<rparr>"

definition example_get_request :: request where
  "example_get_request = \<lparr>http_method = ''GET'', args = example_state_params, json = PNone\<rparr>"

definition example_post_request :: request where
  "example_post_request =
     \<lparr>http_method = ''POST'', args = [],
      json = PList [PDict example_state_params, PDict [(''id'', PStr ''14'')]]\<rparr>"

definition example_place_request :: request where
  "example_place_request = \<lparr>http_method = ''GET'', args = example_point, json = PNone\<rparr>"

text \<open>A world whose heap holds one list with one entity.\<close>

definition one_entity_world :: world where
  "one_entity_world = world0\<lparr>heap := [[example_entity]]\<rparr>"

section \<open>Street extents: properties\<close>

lemma first_extent_ints:
  "first_extent (map (\<lambda>(s, e). (PInt s, PInt e)) cs) (PInt n) =
     Inr (case find (\<lambda>(s, e). s \<le> n \<and> n \<le> e) cs of
            Some (s, e) \<Rightarrow> (PInt s, PInt e)
          | None \<Rightarrow> (PNone, PNone))"
  by (induction cs) (auto split: bool.splits)

text \<open>
  Claim C1. For door numbers that expose the four boundary values as integers and a
  queried integer \<open>n\<close>, \<open>street_extents\<close> returns the first of \<open>(start_r, end_l)\<close>,
  \<open>(start_l, end_r)\<close>, \<open>(start_r, end_r)\<close>, \<open>(start_l, end_l)\<close> with
  \<open>start \<le> n \<le> end\<close>, bounds included, and \<open>(None, None)\<close> when no combination holds
  \<open>n\<close>.
\<close>

theorem street_extents_first_combination:
  assumes "door_num door_nums (N N_START) (N N_RIGHT) = Inr (PInt start_r)"
    and "door_num door_nums (N N_START) (N N_LEFT) = Inr (PInt start_l)"
    and "door_num door_nums (N N_END) (N N_RIGHT) = Inr (PInt end_r)"
    and "door_num door_nums (N N_END) (N N_LEFT) = Inr (PInt end_l)"
  shows "street_extents N door_nums (PInt n) = Inr (spec_extents start_r start_l end_r end_l n)"
proof -
  have "street_extents N door_nums (PInt n) =
      first_extent
        (map (\<lambda>(s, e). (PInt s, PInt e))
           [(start_r, end_l), (start_l, end_r), (start_r, end_r), (start_l, end_l)])
        (PInt n)"
    using assms by (simp add: street_extents_def)
  then show ?thesis
    unfolding spec_extents_def by (simp only: first_extent_ints)
qed

theorem street_extents_first_combination_witness:
  "street_extents georef_names example_door_nums (PInt 150) = Inr (PInt 101, PInt 200)
   \<and> street_extents georef_names example_door_nums (PInt 9999) = Inr (PNone, PNone)
   \<and> street_extents georef_names example_door_nums (PInt 201) = Inr (PInt 100, PInt 201)"
  using street_extents_first_combination [of example_door_nums georef_names 101 100 201 200 150]
    street_extents_first_combination [of example_door_nums georef_names 101 100 201 200 9999]
    street_extents_first_combination [of example_door_nums georef_names 101 100 201 200 201]
  by (simp add: example_door_nums_def door_num_def dict_getitem_def spec_extents_def)

text \<open>
  Claim C10. \<open>street_extents\<close> compares the boundary values with the number and has no
  guard for a value that cannot be compared: when the start of the first combination is
  \<^verbatim>\<open>None\<close>, or its start is at most the number and its end is \<^verbatim>\<open>None\<close>, the
  comparison raises \<^verbatim>\<open>TypeError\<close>; the function neither moves on to the next
  combination nor returns \<open>(None, None)\<close>.
\<close>

theorem street_extents_null_boundary_raises:
  assumes "door_num door_nums (N N_START) (N N_RIGHT) = Inr start_r"
    and "door_num door_nums (N N_START) (N N_LEFT) = Inr start_l"
    and "door_num door_nums (N N_END) (N N_RIGHT) = Inr end_r"
    and "door_num door_nums (N N_END) (N N_LEFT) = Inr end_l"
    and "start_r = PNone \<or> (\<exists>s. start_r = PInt s \<and> s \<le> n \<and> end_l = PNone)"
  shows "street_extents N door_nums (PInt n) = Inl TypeError"
  using assms by (auto simp add: street_extents_def)

theorem street_extents_null_boundary_raises_witness:
  "street_extents georef_names null_start_door_nums (PInt 150) = Inl TypeError"
  using street_extents_null_boundary_raises
    [of null_start_door_nums georef_names PNone "PInt 100" "PInt 201" "PInt 200" 150]
  by (simp add: null_start_door_nums_def door_num_def dict_getitem_def)


section \<open>Key translation: properties\<close>

lemma translate_items_keys:
  "fst ` set (translate_items tr ign acc d) =
     fst ` set acc \<union> translate_key tr ` (fst ` set d - set ign)"
proof (induction d arbitrary: acc)
  case Nil
  then show ?case by simp
next
  case (Cons item d)
  obtain k v where item: "item = (k, v)" by (cases item)
  show ?case
  proof (cases "k \<in> set ign")
    case True
    then show ?thesis using item by (simp add: Cons.IH)
  next
    case False
    then show ?thesis using item
      by (simp add: Cons.IH dict_setitem_def dom_update) blast
  qed
qed

lemma translate_items_distinct:
  "distinct (map fst acc) \<Longrightarrow> distinct (map fst (translate_items tr ign acc d))"
  by (induction d arbitrary: acc) (auto simp: dict_setitem_def distinct_update)

lemma update_set_origin:
  "(k', v') \<in> set (AList.update k v al) \<Longrightarrow> (k', v') = (k, v) \<or> (k', v') \<in> set al"
  by (induction al) (auto split: if_splits)

lemma translate_items_origin:
  "(k', v) \<in> set (translate_items tr ign acc d) \<Longrightarrow>
     (k', v) \<in> set acc \<or> (\<exists>k. (k, v) \<in> set d \<and> k \<notin> set ign \<and> translate_key tr k = k')"
proof (induction d arbitrary: acc)
  case Nil
  then show ?case by simp
next
  case (Cons item d)
  obtain k w where item: "item = (k, w)" by (cases item)
  show ?case
  proof (cases "k \<in> set ign")
    case True
    then show ?thesis using Cons.prems Cons.IH[of acc] item by auto
  next
    case False
    with Cons.prems item
    have "(k', v) \<in> set (translate_items tr ign (AList.update (translate_key tr k) w acc) d)"
      by (simp add: dict_setitem_def)
    from Cons.IH[OF this] show ?thesis
      using item False by (auto dest: update_set_origin)
  qed
qed

lemma translate_items_lookup_later:
  "k' \<notin> translate_key tr ` (fst ` set d - set ign) \<Longrightarrow>
     map_of (translate_items tr ign acc d) k' = map_of acc k'"
proof (induction d arbitrary: acc)
  case Nil
  then show ?case by simp
next
  case (Cons item d)
  obtain k w where item: "item = (k, w)" by (cases item)
  from Cons.prems item have rest: "k' \<notin> translate_key tr ` (fst ` set d - set ign)"
    and here: "k \<notin> set ign \<Longrightarrow> translate_key tr k \<noteq> k'"
    by auto
  show ?case
    using item here by (auto simp add: Cons.IH[OF rest] dict_setitem_def update_conv')
qed

lemma translate_items_carried:
  assumes "distinct (map fst d)"
    and "inj_on (translate_key tr) (fst ` set d - set ign)"
    and "(k, v) \<in> set d" and "k \<notin> set ign"
  shows "map_of (translate_items tr ign acc d) (translate_key tr k) = Some v"
  using assms
proof (induction d arbitrary: acc)
  case Nil
  then show ?case by simp
next
  case (Cons item d)
  obtain k0 w where item: "item = (k0, w)" by (cases item)
  from Cons.prems(2) have inj: "inj_on (translate_key tr) (fst ` set d - set ign)"
    by (rule inj_on_subset) auto
  from Cons.prems(1) item have dist: "distinct (map fst d)" and k0: "k0 \<notin> fst ` set d"
    by auto
  show ?case
  proof (cases "(k, v) \<in> set d")
    case True
    from Cons.IH[OF dist inj True Cons.prems(4)] show ?thesis
      using item by simp
  next
    case False
    with Cons.prems(3) item have eq: "k0 = k" "w = v" by auto
    have "translate_key tr k \<notin> translate_key tr ` (fst ` set d - set ign)"
    proof
      assume "translate_key tr k \<in> translate_key tr ` (fst ` set d - set ign)"
      then obtain k1 where k1: "k1 \<in> fst ` set d - set ign"
        and same: "translate_key tr k = translate_key tr k1" by auto
      have "k \<in> fst ` set (item # d) - set ign" using Cons.prems(3,4) by force
      moreover have "k1 \<in> fst ` set (item # d) - set ign" using k1 by auto
      ultimately have "k = k1" using Cons.prems(2) same by (auto dest: inj_onD)
      with k1 k0 eq show False by auto
    qed
    from translate_items_lookup_later[OF this] show ?thesis
      using item eq Cons.prems(4) by (simp add: dict_setitem_def update_conv')
  qed
qed

lemma translate_keys_items:
  "\<exists>ign. set ign = ignored ignore \<and>
     translate_keys d translations ignore = translate_items translations ign [] d"
proof (cases ignore)
  case None
  then show ?thesis
    by (intro exI[of _ "[]"]) (simp add: translate_keys_def ignored_def)
next
  case (Some ks)
  then show ?thesis
    by (intro exI[of _ ks]) (simp add: translate_keys_def ignored_def)
qed


text \<open>
  Claim C5, amended. For every dictionary \<open>d\<close>, translation map and ignore list,
  \<open>translate_keys\<close> returns a new dictionary whose keys are exactly the keys of \<open>d\<close>
  not in \<open>ignore\<close>, each renamed by \<open>translations\<close> when it has an entry and kept
  otherwise. Every value of the result is the unchanged value of a kept key that is
  renamed to its key; and when no two kept keys are renamed to the same key, the value
  of every kept key is carried over under its new key. (When two kept keys are renamed
  to the same key, the result has one entry for them.) The function is a pure function
  of its three arguments.
\<close>

theorem translate_keys_projection:
  assumes "distinct (dict_keys d)"
  shows "set (dict_keys (translate_keys d translations ignore)) =
           translate_key translations ` (set (dict_keys d) - ignored ignore)
         \<and> distinct (dict_keys (translate_keys d translations ignore))
         \<and> (\<forall>k' v. (k', v) \<in> set (translate_keys d translations ignore) \<longrightarrow>
               (\<exists>k. (k, v) \<in> set d \<and> k \<notin> ignored ignore \<and> translate_key translations k = k'))
         \<and> (inj_on (translate_key translations) (set (dict_keys d) - ignored ignore) \<longrightarrow>
               (\<forall>k v. (k, v) \<in> set d \<and> k \<notin> ignored ignore \<longrightarrow>
                  dict_get (translate_keys d translations ignore) (translate_key translations k)
                    = Some v))"
proof -
  obtain ign where ign: "set ign = ignored ignore"
    and eq: "translate_keys d translations ignore = translate_items translations ign [] d"
    using translate_keys_items[of ignore d "translations"] by (elim exE conjE)
  have keys: "set (dict_keys (translate_keys d translations ignore)) =
      translate_key translations ` (set (dict_keys d) - ignored ignore)"
    using translate_items_keys[of "translations" ign "[]" d]
    by (simp add: eq ign dict_keys_def)
  have dist: "distinct (dict_keys (translate_keys d translations ignore))"
    by (simp add: eq dict_keys_def translate_items_distinct)
  have origin: "\<forall>k' v. (k', v) \<in> set (translate_keys d translations ignore) \<longrightarrow>
      (\<exists>k. (k, v) \<in> set d \<and> k \<notin> ignored ignore \<and> translate_key translations k = k')"
  proof (intro allI impI)
    fix k' v assume "(k', v) \<in> set (translate_keys d translations ignore)"
    then have "(k', v) \<in> set (translate_items translations ign [] d)" by (simp only: eq)
    from translate_items_origin[OF this] show
      "\<exists>k. (k, v) \<in> set d \<and> k \<notin> ignored ignore \<and> translate_key translations k = k'"
      by (simp add: ign)
  qed
  have carried: "inj_on (translate_key translations) (set (dict_keys d) - ignored ignore) \<longrightarrow>
      (\<forall>k v. (k, v) \<in> set d \<and> k \<notin> ignored ignore \<longrightarrow>
         dict_get (translate_keys d translations ignore) (translate_key translations k) = Some v)"
  proof (intro allI impI, elim conjE)
    fix k v
    assume inj: "inj_on (translate_key translations) (set (dict_keys d) - ignored ignore)"
      and kv: "(k, v) \<in> set d" and k: "k \<notin> ignored ignore"
    have "map_of (translate_items translations ign [] d) (translate_key translations k) = Some v"
    proof (rule translate_items_carried)
      show "distinct (map fst d)" using assms by (simp add: dict_keys_def)
      show "inj_on (translate_key translations) (fst ` set d - set ign)"
        using inj by (simp add: dict_keys_def ign)
      show "(k, v) \<in> set d" by (rule kv)
      show "k \<notin> set ign" using k by (simp add: ign)
    qed
    then show "dict_get (translate_keys d translations ignore) (translate_key translations k)
        = Some v"
      by (simp add: eq dict_get_def)
  qed
  show ?thesis
    by (rule conjI[OF keys conjI[OF dist conjI[OF origin carried]]])
qed


theorem translate_keys_projection_witness:
  "translate_keys example_state_params example_state_translations
     (Some [''aplanar'', ''formato'']) =
     [(''name'', PStr ''cordoba''), (''fields'', PList [PStr ''id''])]
   \<and> set (dict_keys (translate_keys example_state_params example_state_translations
                       (Some [''aplanar'', ''formato'']))) = {''name'', ''fields''}
   \<and> dict_get (translate_keys example_state_params example_state_translations
                 (Some [''aplanar'', ''formato''])) ''name'' = Some (PStr ''cordoba'')"
proof -
  have d: "distinct (dict_keys example_state_params)"
    by (simp add: example_state_params_def dict_keys_def)
  have kept: "set (dict_keys example_state_params) - ignored (Some [''aplanar'', ''formato''])
      = {''nombre'', ''campos''}"
    by (auto simp add: example_state_params_def dict_keys_def ignored_def)
  have inj: "inj_on (translate_key example_state_translations)
      (set (dict_keys example_state_params) - ignored (Some [''aplanar'', ''formato'']))"
    by (simp add: kept translate_key_def example_state_translations_def)
  note t = translate_keys_projection [OF d, of example_state_translations
      "Some [''aplanar'', ''formato'']"]
  from t have "set (dict_keys (translate_keys example_state_params example_state_translations
      (Some [''aplanar'', ''formato'']))) = {''name'', ''fields''}"
    by (simp add: kept translate_key_def example_state_translations_def)
  moreover from t inj have "dict_get (translate_keys example_state_params
      example_state_translations (Some [''aplanar'', ''formato'']))
        (translate_key example_state_translations ''nombre'') = Some (PStr ''cordoba'')"
    by (simp add: example_state_params_def ignored_def)
  then have "dict_get (translate_keys example_state_params
      example_state_translations (Some [''aplanar'', ''formato''])) ''name''
        = Some (PStr ''cordoba'')"
    by (simp add: translate_key_def example_state_translations_def)
  moreover have "translate_keys example_state_params example_state_translations
     (Some [''aplanar'', ''formato'']) =
     [(''name'', PStr ''cordoba''), (''fields'', PList [PStr ''id''])]"
    by (simp add: translate_keys_def example_state_params_def example_state_translations_def
        translate_key_def dict_setitem_def)
  ultimately show ?thesis by blast
qed

text \<open>
  The claim as first stated, with every value carried over, fails when two kept keys
  are renamed to the same key: with \<^verbatim>\<open>d = {'a': 1, 'b': 2}\<close> and
  \<^verbatim>\<open>translations = {'a': 'b'}\<close> the result is \<^verbatim>\<open>{'b': 2}\<close>, and the value of
  \<^verbatim>\<open>'a'\<close> is not under its new key.
\<close>

theorem translate_keys_collision_counterexample:
  "(''a'', PInt 1) \<in> set collision_dict
   \<and> translate_keys collision_dict collision_translations None = [(''b'', PInt 2)]
   \<and> dict_get (translate_keys collision_dict collision_translations None)
        (translate_key collision_translations ''a'') \<noteq> Some (PInt 1)"
  by (simp add: collision_dict_def collision_translations_def translate_keys_def
      translate_key_def dict_setitem_def dict_get_def)

section \<open>Places: properties\<close>

lemma empty_entity_null: "N N_ID \<noteq> N N_NAME \<Longrightarrow> PDict (empty_entity N) = null_entity N"
  by (simp add: empty_entity_def null_entity_def dict_setitem_def)

lemma dict_setitem_fresh:
  "k \<notin> fst ` set d \<Longrightarrow> dict_setitem d k v = d @ [(k, v)]"
  unfolding dict_setitem_def by (induction d) auto

lemma dict_display_distinct:
  "distinct (map fst (acc @ kvs)) \<Longrightarrow> dict_display acc kvs = acc @ kvs"
proof (induction acc kvs rule: dict_display.induct)
  case (1 acc)
  then show ?case by simp
next
  case (2 acc k v kvs)
  from "2.prems" have fresh: "k \<notin> fst ` set acc" by auto
  from "2.prems" have "distinct (map fst ((acc @ [(k, v)]) @ kvs))" by simp
  with "2.IH" fresh show ?case by (simp add: dict_setitem_fresh)
qed

lemma place_display:
  "distinct [k1, k2, k3, k4, k5, k6] \<Longrightarrow>
     dict_display [] [(k1, v1), (k2, v2), (k3, v3), (k4, v4), (k5, v5), (k6, v6)] =
       [(k1, v1), (k2, v2), (k3, v3), (k4, v4), (k5, v5), (k6, v6)]"
  by (rule dict_display_distinct[of "[]", simplified]) simp

lemma build_place_result_no_dept:
  assumes "place_names_distinct N"
    and "dict_getitem query ''lat'' = Inr lat" and "dict_getitem query ''lon'' = Inr lon"
    and "\<not> dict_truthy dept"
  shows "build_place_result N query dept muni =
     Inr [(N N_STATE, null_entity N), (N N_DEPT, null_entity N),
          (N N_MUN, null_entity N), (N N_LAT, lat), (N N_LON, lon), (N N_SOURCE, PNone)]"
proof -
  from assms(1) have dist: "distinct [N N_STATE, N N_DEPT, N N_MUN, N N_LAT, N N_LON, N N_SOURCE]"
    and idn: "N N_ID \<noteq> N N_NAME"
    by (simp_all add: place_names_distinct_def)
  show ?thesis
    using assms(2-4)
    by (simp add: build_place_result_def empty_entity_null[OF idn] place_display[OF dist]
        del: dict_display.simps)
qed

lemma build_place_result_dept:
  assumes "place_names_distinct N"
    and "dict_getitem query ''lat'' = Inr lat" and "dict_getitem query ''lon'' = Inr lon"
    and "dict_get d (N N_STATE) = Some state"
  shows "build_place_result N query (Some d) muni =
     Inr [(N N_STATE, state), (N N_DEPT, PDict (AList.delete (N N_STATE) d)),
          (N N_MUN, if dict_truthy muni then PDict (the muni) else null_entity N),
          (N N_LAT, lat), (N N_LON, lon), (N N_SOURCE, PStr (N N_SOURCE_IGN))]"
proof -
  from assms(1) have dist: "distinct [N N_STATE, N N_DEPT, N N_MUN, N N_LAT, N N_LON, N N_SOURCE]"
    and idn: "N N_ID \<noteq> N N_NAME"
    by (simp_all add: place_names_distinct_def)
  from assms(4) have "d \<noteq> []" by (auto simp: dict_get_def)
  then have t: "dict_truthy (Some d)" by (simp add: dict_truthy_def)
  have m: "or_empty_entity N muni = (if dict_truthy muni then PDict (the muni) else null_entity N)"
    by (auto simp: or_empty_entity_def dict_truthy_def empty_entity_null[OF idn]
        split: option.splits)
  show ?thesis
    using assms(2-4) t
    by (simp add: build_place_result_def dict_pop_def dict_get_def get_index_source_def m
        place_display[OF dist] del: dict_display.simps)
qed

lemma first_hit_cases:
  "first_hit result = Inr (case hits result of [] \<Rightarrow> None | hit # _ \<Rightarrow> Some hit)"
  by (simp add: first_hit_def result_truthy_def first_item_def split: list.splits)

text \<open>
  Claim C3. For a point query with its department and municipality results: when the
  department result has no match, the place has state, department and municipality all
  equal to \<^verbatim>\<open>{id: None, name: None}\<close> and source \<^verbatim>\<open>None\<close>; when it has a match with
  its embedded state, the place's state is that embedded state (taken out of the
  department), the municipality is the municipality match when there is one and the
  stub \<^verbatim>\<open>{id: None, name: None}\<close> otherwise, and the source is the source of the
  department index.
\<close>

theorem place_composition:
  assumes "place_names_distinct N"
    and "dict_getitem query ''lat'' = Inr lat" and "dict_getitem query ''lon'' = Inr lon"
  shows "(hits dept_result = [] \<longrightarrow>
            build_place_results N [query] [dept_result] [muni_result] =
              Inr [[(N N_STATE, null_entity N), (N N_DEPT, null_entity N),
                    (N N_MUN, null_entity N), (N N_LAT, lat), (N N_LON, lon),
                    (N N_SOURCE, PNone)]])
       \<and> (\<forall>d ds state. hits dept_result = d # ds \<and> dict_get d (N N_STATE) = Some state \<longrightarrow>
            (\<exists>place. build_place_results N [query] [dept_result] [muni_result] = Inr [place]
               \<and> dict_get place (N N_STATE) = Some state
               \<and> dict_get place (N N_DEPT) = Some (PDict (AList.delete (N N_STATE) d))
               \<and> (hits muni_result = [] \<longrightarrow> dict_get place (N N_MUN) = Some (null_entity N))
               \<and> (\<forall>m ms. hits muni_result = m # ms \<and> m \<noteq> [] \<longrightarrow>
                     dict_get place (N N_MUN) = Some (PDict m))
               \<and> dict_get place (N N_SOURCE) = Some (PStr (N N_SOURCE_IGN))))"
proof (intro conjI allI impI)
  assume "hits dept_result = []"
  then have "first_hit dept_result = Inr None" by (simp add: first_hit_cases)
  moreover have "\<not> dict_truthy None" by (simp add: dict_truthy_def)
  ultimately show "build_place_results N [query] [dept_result] [muni_result] =
      Inr [[(N N_STATE, null_entity N), (N N_DEPT, null_entity N),
            (N N_MUN, null_entity N), (N N_LAT, lat), (N N_LON, lon), (N N_SOURCE, PNone)]]"
    using build_place_result_no_dept[OF assms, of None]
    by (simp add: first_hit_cases)
next
  fix d ds state
  assume h: "hits dept_result = d # ds \<and> dict_get d (N N_STATE) = Some state"
  from assms(1) have dist: "distinct [N N_STATE, N N_DEPT, N N_MUN, N N_LAT, N N_LON, N N_SOURCE]"
    by (simp add: place_names_distinct_def)
  let ?muni = "case hits muni_result of [] \<Rightarrow> None | hit # _ \<Rightarrow> Some hit"
  let ?place = "[(N N_STATE, state), (N N_DEPT, PDict (AList.delete (N N_STATE) d)),
          (N N_MUN, if dict_truthy ?muni then PDict (the ?muni) else null_entity N),
          (N N_LAT, lat), (N N_LON, lon), (N N_SOURCE, PStr (N N_SOURCE_IGN))]"
  from h have bp: "build_place_result N query (Some d) ?muni = Inr ?place"
    using build_place_result_dept[OF assms] by blast
  have run: "build_place_results N [query] [dept_result] [muni_result] = Inr [?place]"
    using h bp by (simp add: first_hit_cases)
  have st: "dict_get ?place (N N_STATE) = Some state" by (simp add: dict_get_def)
  have dp: "dict_get ?place (N N_DEPT) = Some (PDict (AList.delete (N N_STATE) d))"
    using dist by (auto simp add: dict_get_def)
  have m0: "hits muni_result = [] \<longrightarrow> dict_get ?place (N N_MUN) = Some (null_entity N)"
    using dist by (auto simp add: dict_get_def dict_truthy_def)
  have m1: "\<forall>m ms. hits muni_result = m # ms \<and> m \<noteq> [] \<longrightarrow>
      dict_get ?place (N N_MUN) = Some (PDict m)"
    using dist by (auto simp add: dict_get_def dict_truthy_def)
  have so: "dict_get ?place (N N_SOURCE) = Some (PStr (N N_SOURCE_IGN))"
    using dist by (auto simp add: dict_get_def)
  show "\<exists>place. build_place_results N [query] [dept_result] [muni_result] = Inr [place]
               \<and> dict_get place (N N_STATE) = Some state
               \<and> dict_get place (N N_DEPT) = Some (PDict (AList.delete (N N_STATE) d))
               \<and> (hits muni_result = [] \<longrightarrow> dict_get place (N N_MUN) = Some (null_entity N))
               \<and> (\<forall>m ms. hits muni_result = m # ms \<and> m \<noteq> [] \<longrightarrow>
                     dict_get place (N N_MUN) = Some (PDict m))
               \<and> dict_get place (N N_SOURCE) = Some (PStr (N N_SOURCE_IGN))"
    by (rule exI[of _ ?place]) (rule conjI[OF run conjI[OF st conjI[OF dp conjI[OF m0 conjI[OF m1 so]]]]])
qed

theorem place_composition_witness:
  "build_place_results georef_names [example_point] [example_no_match] [example_no_match] =
     Inr [[(''provincia'', PDict [(''id'', PNone), (''nombre'', PNone)]),
           (''departamento'', PDict [(''id'', PNone), (''nombre'', PNone)]),
           (''municipio'', PDict [(''id'', PNone), (''nombre'', PNone)]),
           (''lat'', PStr ''-31.42''), (''lon'', PStr ''-64.18''), (''fuente'', PNone)]]
   \<and> (\<exists>place.
         build_place_results georef_names [example_point] [example_dept_result] [example_no_match]
           = Inr [place]
         \<and> dict_get place ''provincia'' = Some example_state
         \<and> dict_get place ''departamento'' =
             Some (PDict [(''id'', PStr ''14014''), (''nombre'', PStr ''capital'')])
         \<and> dict_get place ''municipio'' = Some (PDict [(''id'', PNone), (''nombre'', PNone)])
         \<and> dict_get place ''fuente'' = Some (PStr ''IGN''))"
proof -
  have names: "place_names_distinct georef_names"
    by (simp add: place_names_distinct_def)
  have lat: "dict_getitem example_point ''lat'' = Inr (PStr ''-31.42'')"
    and lon: "dict_getitem example_point ''lon'' = Inr (PStr ''-64.18'')"
    by (simp_all add: example_point_def dict_getitem_def)
  note t = place_composition [OF names lat lon]
  have none: "build_place_results georef_names [example_point] [example_no_match]
      [example_no_match] =
     Inr [[(''provincia'', PDict [(''id'', PNone), (''nombre'', PNone)]),
           (''departamento'', PDict [(''id'', PNone), (''nombre'', PNone)]),
           (''municipio'', PDict [(''id'', PNone), (''nombre'', PNone)]),
           (''lat'', PStr ''-31.42''), (''lon'', PStr ''-64.18''), (''fuente'', PNone)]]"
    using t [of example_no_match example_no_match, THEN conjunct1]
    by (simp add: example_no_match_def null_entity_def)
  have some: "\<exists>place.
         build_place_results georef_names [example_point] [example_dept_result] [example_no_match]
           = Inr [place]
         \<and> dict_get place ''provincia'' = Some example_state
         \<and> dict_get place ''departamento'' =
             Some (PDict [(''id'', PStr ''14014''), (''nombre'', PStr ''capital'')])
         \<and> dict_get place ''municipio'' = Some (PDict [(''id'', PNone), (''nombre'', PNone)])
         \<and> dict_get place ''fuente'' = Some (PStr ''IGN'')"
    using t [of example_dept_result example_no_match, THEN conjunct2, rule_format,
        of example_dept "[]" example_state]
    by (simp add: example_dept_result_def example_no_match_def example_dept_def dict_get_def
        null_entity_def del: build_place_results.simps)
  from none some show ?thesis by (rule conjI)
qed

section \<open>Computations in the world: rules\<close>

lemma bindW_liftE_Inr [simp]: "bindW (liftE (Inr x)) f = f x"
  by (rule ext) (simp add: bindW_def liftE_def)

lemma bindW_liftE_Inl [simp]: "bindW (liftE (Inl err)) f w = (Inl err, w)"
  by (simp add: bindW_def liftE_def)

lemma bindW_returnW [simp]: "bindW (returnW x) f = f x"
  by (rule ext) (simp add: bindW_def returnW_def)

lemma bindW_InrE:
  assumes "bindW m f w = (Inr y, w')"
  obtains x w1 where "m w = (Inr x, w1)" and "f x w1 = (Inr y, w')"
  using assms by (auto simp: bindW_def split: prod.splits sum.splits)

lemma liftE_InrE:
  assumes "liftE r w = (Inr x, w')"
  obtains "r = Inr x" and "w' = w"
  using assms by (simp add: liftE_def)

lemma returnW_InrE:
  assumes "returnW x w = (Inr y, w')"
  obtains "y = x" and "w' = w"
  using assms by (auto simp add: returnW_def)

lemma except_ok_response:
  assumes "except_DataConnectionException resource body w = (Inr response, w')"
    and "response \<noteq> create_internal_error_response"
  shows "body w = (Inr response, w')"
  using assms
  by (auto simp: except_DataConnectionException_def split: prod.splits sum.splits pyerror.splits)

section \<open>QueryResult: properties\<close>

lemma query_result_of_eq:
  "query_result_of result w =
     (Inr (init_QueryResult (length (heap w)) True (total_res result) (offset_res result)),
      w\<lparr>heap := heap w @ [hits result]\<rparr>)"
  by (simp add: query_result_of_def bindW_def new_list_def from_entity_list_def returnW_def)

lemma from_single_entity_eq:
  "from_single_entity entity w =
     (Inr (init_QueryResult (length (heap w)) False 1 0), w\<lparr>heap := heap w @ [[entity]]\<rparr>)"
  by (simp add: from_single_entity_def bindW_def new_list_def returnW_def)

lemma list_invariant_query_result_of:
  assumes "bounded_result result" and "query_result_of result w = (Inr qr, w')"
  shows "list_invariant w' qr"
  using assms
  by (auto simp: query_result_of_eq list_invariant_def init_QueryResult_def list_at_def
      bounded_result_def)

lemma singular_invariant_from_single_entity:
  assumes "from_single_entity entity w = (Inr qr, w')"
  shows "singular_invariant w' qr"
  using assms
  by (auto simp: from_single_entity_eq singular_invariant_def init_QueryResult_def list_at_def)

lemma mapW_new_lists:
  assumes f: "\<And>x w. f x w = (Inr (g (length (heap w)) x), w\<lparr>heap := heap w @ [h x]\<rparr>)"
  shows "mapW f xs w =
     (Inr (map2 g [length (heap w) ..< length (heap w) + length xs] xs),
      w\<lparr>heap := heap w @ map h xs\<rparr>)"
proof (induction xs arbitrary: w)
  case Nil
  then show ?case by simp
next
  case (Cons x xs)
  have upt: "[length (heap w) ..< Suc (length (heap w) + length xs)] =
      length (heap w) # [Suc (length (heap w)) ..< Suc (length (heap w) + length xs)]"
    by (subst upt_rec) simp
  let ?w1 = "w\<lparr>heap := heap w @ [h x]\<rparr>"
  have step: "f x w = (Inr (g (length (heap w)) x), ?w1)" by (rule f)
  have "mapW f (x # xs) w =
      (case mapW f xs ?w1 of
         (Inl err, w'') \<Rightarrow> (Inl err, w'')
       | (Inr ys, w'') \<Rightarrow> (Inr (g (length (heap w)) x # ys), w''))"
    by (simp only: mapW.simps step prod.case sum.case)
  also have "\<dots> = (Inr (g (length (heap w)) x #
        map2 g [length (heap ?w1) ..< length (heap ?w1) + length xs] xs),
      ?w1\<lparr>heap := heap ?w1 @ map h xs\<rparr>)"
    by (simp only: Cons.IH prod.case sum.case)
  finally have eq: "mapW f (x # xs) w = (Inr (g (length (heap w)) x #
        map2 g [length (heap ?w1) ..< length (heap ?w1) + length xs] xs),
      ?w1\<lparr>heap := heap ?w1 @ map h xs\<rparr>)" .
  show ?case
    by (simp only: eq) (simp add: upt del: upt_Suc)
qed

lemma mapW_query_result_of_eq:
  "mapW query_result_of results w =
     (Inr (map2 (\<lambda>r result. init_QueryResult r True (total_res result) (offset_res result))
             [length (heap w) ..< length (heap w) + length results] results),
      w\<lparr>heap := heap w @ map hits results\<rparr>)"
  by (rule mapW_new_lists) (rule query_result_of_eq)

lemma mapW_from_single_entity_eq:
  "mapW from_single_entity places w =
     (Inr (map2 (\<lambda>r place. init_QueryResult r False 1 0)
             [length (heap w) ..< length (heap w) + length places] places),
      w\<lparr>heap := heap w @ map (\<lambda>place. [place]) places\<rparr>)"
  by (rule mapW_new_lists) (rule from_single_entity_eq)

lemma list_invariant_mapW:
  assumes "list_all bounded_result results"
    and "mapW query_result_of results w = (Inr qrs, w')"
  shows "list_all (list_invariant w') qrs"
proof -
  from assms(2) have qrs: "qrs = map2 (\<lambda>r result. init_QueryResult r True (total_res result)
        (offset_res result)) [length (heap w) ..< length (heap w) + length results] results"
    and w': "w' = w\<lparr>heap := heap w @ map hits results\<rparr>"
    by (simp_all add: mapW_query_result_of_eq)
  show ?thesis
    unfolding list_all_length
  proof (intro allI impI)
    fix i assume "i < length qrs"
    then have i: "i < length results" by (simp add: qrs)
    with assms(1) have "bounded_result (results ! i)" by (simp add: list_all_length)
    with i show "list_invariant w' (qrs ! i)"
      by (simp add: qrs w' list_invariant_def init_QueryResult_def list_at_def nth_append
          bounded_result_def)
  qed
qed

lemma singular_invariant_mapW:
  assumes "mapW from_single_entity places w = (Inr qrs, w')"
  shows "list_all (singular_invariant w') qrs"
proof -
  from assms have qrs: "qrs = map2 (\<lambda>r place. init_QueryResult r False 1 0)
        [length (heap w) ..< length (heap w) + length places] places"
    and w': "w' = w\<lparr>heap := heap w @ map (\<lambda>place. [place]) places\<rparr>"
    by (simp_all add: mapW_from_single_entity_eq)
  show ?thesis
    unfolding list_all_length
  proof (intro allI impI)
    fix i assume "i < length qrs"
    then have i: "i < length places" by (simp add: qrs)
    then show "singular_invariant w' (qrs ! i)"
      by (simp add: qrs w' singular_invariant_def init_QueryResult_def list_at_def nth_append)
  qed
qed

lemma data_search_entities_InrD:
  "data_search_entities E handle name queries w = (Inr results, w') \<Longrightarrow>
     search_entities E handle name queries = Inr results"
  by (simp add: data_search_entities_def)

lemma data_search_streets_InrD:
  "data_search_streets E handle queries w = (Inr results, w') \<Longrightarrow>
     search_streets E handle queries = Inr results"
  by (simp add: data_search_streets_def)

lemma first_item_InrD: "first_item xs = Inr x \<Longrightarrow> x \<in> set xs"
  by (cases xs) (auto simp: first_item_def)

lemma bounded_tag_source: "bounded_result r \<Longrightarrow> bounded_result (tag_source N source r)"
  by (simp add: bounded_result_def tag_source_def)

lemma entity_results_bounded:
  "results_bounded E \<Longrightarrow> search_entities E handle name queries = Inr results \<Longrightarrow>
     list_all bounded_result results"
  unfolding results_bounded_def by blast

lemma street_results_bounded:
  "results_bounded E \<Longrightarrow> search_streets E handle queries = Inr results \<Longrightarrow>
     list_all bounded_result results"
  unfolding results_bounded_def by blast

lemma except_InrD:
  assumes "except_DataConnectionException resource body w = (Inr response, w')"
  shows "response = create_internal_error_response \<or> body w = (Inr response, w')"
  using assms
  by (auto simp: except_DataConnectionException_def split: prod.splits sum.splits pyerror.splits)

lemma process_entity_single_invariant:
  assumes "results_bounded E"
    and "process_entity_single N E request name param_parser key_translations w =
      (Inr response, w')"
  shows "response_invariant list_invariant w' response"
proof (cases "parse_get_params param_parser (args request)")
  case (Inl errors)
  with assms(2) show ?thesis
    by (auto simp add: process_entity_single_def returnW_def response_invariant_def)
next
  case (Inr qs_params)
  with assms(2) obtain handle query results result source w1 w2 qr fmt where
    search: "data_search_entities E handle name [query] w1 = (Inr results, w2)"
    and first: "first_item results = Inr result"
    and built: "query_result_of (tag_source N source result) w2 = (Inr qr, w')"
    and response: "response = create_ok_response name qr fmt"
    by (auto simp: process_entity_single_def Let_def returnW_def
        elim!: bindW_InrE liftE_InrE)
  from entity_results_bounded[OF assms(1) data_search_entities_InrD[OF search]]
    first_item_InrD[OF first]
  have "bounded_result result" by (simp add: list_all_iff)
  then have "bounded_result (tag_source N source result)" by (rule bounded_tag_source)
  from list_invariant_query_result_of[OF this built] show ?thesis
    by (simp add: response response_invariant_def)
qed

lemma process_entity_bulk_invariant:
  assumes "results_bounded E"
    and "process_entity_bulk N E request name param_parser key_translations w =
      (Inr response, w')"
  shows "response_invariant list_invariant w' response"
proof (cases "parse_post_params param_parser (args request) (json request) name")
  case (Inl errors)
  with assms(2) show ?thesis
    by (auto simp add: process_entity_bulk_def returnW_def response_invariant_def)
next
  case (Inr body_params)
  with assms(2) obtain handle queries results source w1 w2 qrs fmts where
    search: "data_search_entities E handle name queries w1 = (Inr results, w2)"
    and built: "mapW query_result_of (map (tag_source N source) results) w2 = (Inr qrs, w')"
    and response: "response = create_ok_response_bulk name qrs fmts"
    by (auto simp: process_entity_bulk_def Let_def returnW_def
        elim!: bindW_InrE liftE_InrE)
  from entity_results_bounded[OF assms(1) data_search_entities_InrD[OF search]]
  have "list_all bounded_result (map (tag_source N source) results)"
    by (simp add: list_all_iff bounded_tag_source)
  from list_invariant_mapW[OF this built] show ?thesis
    by (simp add: response response_invariant_def)
qed

lemma process_entity_invariant:
  assumes "results_bounded E"
    and "process_entity N E request name param_parser key_translations w = (Inr response, w')"
  shows "response_invariant list_invariant w' response"
proof -
  from except_InrD[OF assms(2)[unfolded process_entity_def]]
  show ?thesis
  proof
    assume "response = create_internal_error_response"
    then show ?thesis by (simp add: response_invariant_def)
  next
    assume "(if http_method request = ''GET''
        then process_entity_single N E request name param_parser key_translations
        else process_entity_bulk N E request name param_parser key_translations) w =
      (Inr response, w')"
    then show ?thesis
      using process_entity_single_invariant[OF assms(1)]
        process_entity_bulk_invariant[OF assms(1)]
      by (auto split: if_splits)
  qed
qed

lemma process_street_single_invariant:
  assumes "results_bounded E"
    and "process_street_single N E request w = (Inr response, w')"
  shows "response_invariant list_invariant w' response"
proof (cases "parse_get_params (PARAMS_STREETS E) (args request)")
  case (Inl errors)
  with assms(2) show ?thesis
    by (auto simp add: process_street_single_def returnW_def response_invariant_def)
next
  case (Inr qs_params)
  with assms(2) obtain handle query results result source w1 w2 qr fmt where
    search: "data_search_streets E handle [query] w1 = (Inr results, w2)"
    and first: "first_item results = Inr result"
    and built: "query_result_of (tag_source N source result) w2 = (Inr qr, w')"
    and response: "response = create_ok_response (N N_STREETS) qr fmt"
    by (auto simp: process_street_single_def Let_def returnW_def
        elim!: bindW_InrE liftE_InrE split: prod.splits)
  from street_results_bounded[OF assms(1) data_search_streets_InrD[OF search]]
    first_item_InrD[OF first]
  have "bounded_result result" by (simp add: list_all_iff)
  then have "bounded_result (tag_source N source result)" by (rule bounded_tag_source)
  from list_invariant_query_result_of[OF this built] show ?thesis
    by (simp add: response response_invariant_def)
qed

lemma process_street_bulk_invariant:
  assumes "results_bounded E"
    and "process_street_bulk N E request w = (Inr response, w')"
  shows "response_invariant list_invariant w' response"
proof (cases "parse_post_params (PARAMS_STREETS E) (args request) (json request) (N N_STREETS)")
  case (Inl errors)
  with assms(2) show ?thesis
    by (auto simp add: process_street_bulk_def returnW_def response_invariant_def)
next
  case (Inr body_params)
  with assms(2) obtain handle queries results source w1 w2 qrs fmts where
    search: "data_search_streets E handle queries w1 = (Inr results, w2)"
    and built: "mapW query_result_of (map (tag_source N source) results) w2 = (Inr qrs, w')"
    and response: "response = create_ok_response_bulk (N N_STREETS) qrs fmts"
    by (auto simp: process_street_bulk_def Let_def returnW_def
        elim!: bindW_InrE liftE_InrE)
  from street_results_bounded[OF assms(1) data_search_streets_InrD[OF search]]
  have "list_all bounded_result (map (tag_source N source) results)"
    by (simp add: list_all_iff bounded_tag_source)
  from list_invariant_mapW[OF this built] show ?thesis
    by (simp add: response response_invariant_def)
qed

lemma process_street_invariant:
  assumes "results_bounded E"
    and "process_street N E request w = (Inr response, w')"
  shows "response_invariant list_invariant w' response"
proof -
  from except_InrD[OF assms(2)[unfolded process_street_def]]
  show ?thesis
  proof
    assume "response = create_internal_error_response"
    then show ?thesis by (simp add: response_invariant_def)
  next
    assume "(if http_method request = ''GET'' then process_street_single N E request
        else process_street_bulk N E request) w = (Inr response, w')"
    then show ?thesis
      using process_street_single_invariant[OF assms(1)]
        process_street_bulk_invariant[OF assms(1)]
      by (auto split: if_splits)
  qed
qed

lemma process_place_single_invariant:
  assumes "process_place_single N E request w = (Inr response, w')"
  shows "response_invariant singular_invariant w' response"
proof (cases "parse_get_params (PARAMS_PLACE E) (args request)")
  case (Inl errors)
  with assms show ?thesis
    by (auto simp add: process_place_single_def returnW_def response_invariant_def)
next
  case (Inr qs_params)
  with assms obtain place w1 qr fmt where
    built: "from_single_entity place w1 = (Inr qr, w')"
    and response: "response = create_ok_response (N N_PLACE) qr fmt"
    by (auto simp: process_place_single_def Let_def returnW_def
        elim!: bindW_InrE liftE_InrE split: prod.splits)
  from singular_invariant_from_single_entity[OF built] show ?thesis
    by (simp add: response response_invariant_def)
qed

lemma process_place_bulk_invariant:
  assumes "process_place_bulk N E request w = (Inr response, w')"
  shows "response_invariant singular_invariant w' response"
proof (cases "parse_post_params (PARAMS_PLACE E) (args request) (json request) (N N_PLACES)")
  case (Inl errors)
  with assms show ?thesis
    by (auto simp add: process_place_bulk_def returnW_def response_invariant_def)
next
  case (Inr body_params)
  with assms obtain places w1 qrs fmts where
    built: "mapW from_single_entity places w1 = (Inr qrs, w')"
    and response: "response = create_ok_response_bulk (N N_PLACE) qrs fmts"
    by (auto simp: process_place_bulk_def Let_def returnW_def
        elim!: bindW_InrE liftE_InrE)
  from singular_invariant_mapW[OF built] show ?thesis
    by (simp add: response response_invariant_def)
qed

lemma process_place_invariant:
  assumes "process_place N E request w = (Inr response, w')"
  shows "response_invariant singular_invariant w' response"
proof -
  from except_InrD[OF assms[unfolded process_place_def]]
  show ?thesis
  proof
    assume "response = create_internal_error_response"
    then show ?thesis by (simp add: response_invariant_def)
  next
    assume "(if http_method request = ''GET'' then process_place_single N E request
        else process_place_bulk N E request) w = (Inr response, w')"
    then show ?thesis
      using process_place_single_invariant process_place_bulk_invariant
      by (auto split: if_splits)
  qed
qed

lemma get_postgres_db_connection_InrE:
  assumes "get_postgres_db_connection E p body w = (Inr x, w')"
  obtains w2 where
    "body (getconn E p (pg_events w))
       (w\<lparr>pg_events := pg_events w @ [GetConn p (getconn E p (pg_events w))]\<rparr>) = (Inr x, w2)"
    and "w' = w2\<lparr>pg_events := pg_events w2 @ [PutConn p (getconn E p (pg_events w))]\<rparr>"
  using assms
  by (auto simp: get_postgres_db_connection_def Let_def split: prod.splits)

lemma address_of_streets_length:
  "address_of_streets N E c flds number source streets w = (Inr streets', w') \<Longrightarrow>
     length streets' = length streets"
  by (induction streets arbitrary: w streets') (auto split: prod.splits sum.splits)

lemma build_addresses_result_bounded:
  assumes "build_addresses_result N E result query source w = (Inr result', w')"
  shows "length (hits result') = length (hits result) \<and> total_res result' = total_res result"
proof -
  from assms obtain c flds number streets w1 w2 where
    loop: "address_of_streets N E c flds number source (hits result) w1 = (Inr streets, w2)"
    and res: "result' = result\<lparr>hits := streets\<rparr>"
    by (auto simp: build_addresses_result_def returnW_def
        elim!: bindW_InrE liftE_InrE get_postgres_db_connection_InrE)
  from address_of_streets_length[OF loop] res show ?thesis by simp
qed

lemma build_addresses_results_bounded:
  "list_all bounded_result results \<Longrightarrow>
   build_addresses_results N E results queries source w = (Inr results', w') \<Longrightarrow>
   list_all bounded_result results'"
proof (induction N E results queries source w arbitrary: results' rule: build_addresses_results.induct)
  case (1 N E result results query queries source w)
  from "1.prems"(2) obtain result' w1 rest where
    one: "build_addresses_result N E result query source w = (Inr result', w1)"
    and more: "build_addresses_results N E results queries source w1 = (Inr rest, w')"
    and res: "results' = result' # rest"
    by (auto split: prod.splits sum.splits)
  from "1.prems"(1) have b: "bounded_result result" and bs: "list_all bounded_result results"
    by simp_all
  from build_addresses_result_bounded[OF one] b have "bounded_result result'"
    by (simp add: bounded_result_def)
  moreover from "1.IH"[OF _ _ bs more] one have "list_all bounded_result rest" by simp
  ultimately show ?case by (simp add: res)
qed simp_all

lemma process_address_single_invariant:
  assumes "results_bounded E"
    and "process_address_single N E request w = (Inr response, w')"
  shows "response_invariant list_invariant w' response"
proof (cases "parse_get_params (PARAMS_ADDRESSES E) (args request)")
  case (Inl errors)
  with assms(2) show ?thesis
    by (auto simp add: process_address_single_def returnW_def response_invariant_def)
next
  case (Inr qs_params)
  with assms(2) obtain handle query results result result' source w1 w2 w3 w4 qr fmt where
    search: "data_search_streets E handle [query] w1 = (Inr results, w2)"
    and first: "first_item results = Inr result"
    and enrich: "build_addresses_result N E result query source w3 = (Inr result', w4)"
    and built: "query_result_of result' w4 = (Inr qr, w')"
    and response: "response = create_ok_response (N N_ADDRESSES) qr fmt"
    by (auto simp: process_address_single_def Let_def returnW_def
        elim!: bindW_InrE liftE_InrE split: prod.splits)
  from street_results_bounded[OF assms(1) data_search_streets_InrD[OF search]]
    first_item_InrD[OF first]
  have "bounded_result result" by (simp add: list_all_iff)
  with build_addresses_result_bounded[OF enrich] have "bounded_result result'"
    by (simp add: bounded_result_def)
  from list_invariant_query_result_of[OF this built] show ?thesis
    by (simp add: response response_invariant_def)
qed

lemma process_address_bulk_invariant:
  assumes "results_bounded E"
    and "process_address_bulk N E request w = (Inr response, w')"
  shows "response_invariant list_invariant w' response"
proof (cases "parse_post_params (PARAMS_ADDRESSES E) (args request) (json request)
    (N N_ADDRESSES)")
  case (Inl errors)
  with assms(2) show ?thesis
    by (auto simp add: process_address_bulk_def returnW_def response_invariant_def)
next
  case (Inr body_params)
  with assms(2) obtain handle queries results results' source w1 w2 w3 w4 qrs fmts where
    search: "data_search_streets E handle queries w1 = (Inr results, w2)"
    and enrich: "build_addresses_results N E results queries source w3 = (Inr results', w4)"
    and built: "mapW query_result_of results' w4 = (Inr qrs, w')"
    and response: "response = create_ok_response_bulk (N N_ADDRESSES) qrs fmts"
    by (auto simp: process_address_bulk_def Let_def returnW_def
        elim!: bindW_InrE liftE_InrE split: prod.splits)
  from street_results_bounded[OF assms(1) data_search_streets_InrD[OF search]]
  have "list_all bounded_result results" .
  from build_addresses_results_bounded[OF this enrich]
  have "list_all bounded_result results'" .
  from list_invariant_mapW[OF this built] show ?thesis
    by (simp add: response response_invariant_def)
qed

lemma process_address_invariant:
  assumes "results_bounded E"
    and "process_address N E request w = (Inr response, w')"
  shows "response_invariant list_invariant w' response"
proof -
  from except_InrD[OF assms(2)[unfolded process_address_def]]
  show ?thesis
  proof
    assume "response = create_internal_error_response"
    then show ?thesis by (simp add: response_invariant_def)
  next
    assume "(if http_method request = ''GET'' then process_address_single N E request
        else process_address_bulk N E request) w = (Inr response, w')"
    then show ?thesis
      using process_address_single_invariant[OF assms(1)]
        process_address_bulk_invariant[OF assms(1)]
      by (auto split: if_splits)
  qed
qed

lemma list_at_grow:
  "r < length (heap w) \<Longrightarrow> list_at (w\<lparr>heap := heap w @ added\<rparr>) r = list_at w r"
  by (simp add: list_at_def nth_append)

lemma example_env_bounded: "results_bounded example_env"
  by (auto simp: results_bounded_def example_env_def list_all_iff bounded_result_def
      example_result_def example_street_result_def)

lemma example_state_run:
  "process_entity georef_names example_env example_get_request ''provincias''
     example_parser example_state_translations world0 =
     (Inr (create_ok_response ''provincias'' (init_QueryResult 0 True 1 0)
             [(''aplanar'', PBool True), (''campos'', PList [PStr ''id'']),
              (''campos_csv'', PList [PStr ''id'', PStr ''nombre''])]),
      world0\<lparr>elasticsearch := Some 1,
        es_calls := [SearchEntities 1 ''provincias''
          [[(''name'', PStr ''cordoba''), (''fields'', PList [PStr ''id''])]]],
        heap := [[example_entity @ [(''fuente'', PStr ''IGN'')]]]\<rparr>)"
  by (simp add: process_entity_def except_DataConnectionException_def
      process_entity_single_def example_get_request_def example_parser_def
      example_state_params_def dict_contains_def dict_keys_def translate_keys_def
      example_state_translations_def translate_key_def dict_setitem_def example_env_def
      get_elasticsearch_def world0_def data_search_entities_def bindW_def first_item_def
      liftE_def returnW_def get_index_source_def query_result_of_eq tag_source_def
      example_result_def example_entity_def init_QueryResult_def Let_def)

lemma example_place_run:
  "process_place georef_names example_env example_place_request world0 =
     (Inr (create_ok_response ''ubicacion'' (init_QueryResult 0 False 1 0) []),
      world0\<lparr>elasticsearch := Some 1,
        es_calls :=
          [SearchPlaces 1 ''departamentos''
             [[(''lat'', PStr ''-31.42''), (''lon'', PStr ''-64.18''),
               (''fields'', PList [PStr ''id'', PStr ''nombre'', PStr ''provincia''])]],
           SearchPlaces 1 ''municipios''
             [[(''lat'', PStr ''-31.42''), (''lon'', PStr ''-64.18''),
               (''fields'', PList [PStr ''id'', PStr ''nombre''])]]],
        heap :=
          [[[(''provincia'', example_state),
             (''departamento'',
              PDict [(''id'', PStr ''14014''), (''nombre'', PStr ''capital'')]),
             (''municipio'', PDict [(''id'', PNone), (''nombre'', PNone)]),
             (''lat'', PStr ''-31.42''), (''lon'', PStr ''-64.18''),
             (''fuente'', PStr ''IGN'')]]]\<rparr>)"
  by (simp add: process_place_def except_DataConnectionException_def
      process_place_single_def example_place_request_def example_parser_def
      example_point_def dict_contains_def dict_keys_def build_place_query_format_def
      translate_keys_def translate_key_def dict_setitem_def example_env_def
      get_elasticsearch_def world0_def process_place_queries_def data_search_places_def
      bindW_def first_item_def liftE_def returnW_def dict_getitem_def first_hit_def
      result_truthy_def example_dept_result_def example_no_match_def example_dept_def
      build_place_result_def dict_truthy_def dict_pop_def or_empty_entity_def
      empty_entity_def get_index_source_def from_single_entity_eq init_QueryResult_def
      Let_def)

text \<open>
  Claim C7, amended. Every \<open>QueryResult\<close> built as a singular result has
  \<open>iterable = False\<close>, \<open>total = 1\<close>, \<open>offset = 0\<close> and exactly one entity. Every
  \<open>QueryResult\<close> built as a list result satisfies \<open>len(entities) \<le> total\<close> when the
  search result it is built from does: \<open>from_entity_list\<close> keeps the list and the
  total it is given and checks neither. These fields are never mutated after
  construction: in the world that a handler hands on with its response the invariants
  hold for every result of the response, whatever was built after it; the properties
  and \<open>first_entity\<close> return the attributes and change nothing; and building a further
  result leaves an existing one as it is.
\<close>

theorem QueryResult_invariants:
  assumes "results_bounded E"
  shows "(\<exists>qr w'. from_single_entity entity w = (Inr qr, w') \<and> singular_invariant w' qr)
       \<and> from_entity_list es t off w = (Inr (init_QueryResult es True t off), w)
       \<and> (process_place N E request w = (Inr response, w') \<longrightarrow>
            response_invariant singular_invariant w' response)
       \<and> (process_entity N E request name param_parser key_translations w = (Inr response, w')
            \<longrightarrow> response_invariant list_invariant w' response)
       \<and> (process_street N E request w = (Inr response, w') \<longrightarrow>
            response_invariant list_invariant w' response)
       \<and> (process_address N E request w = (Inr response, w') \<longrightarrow>
            response_invariant list_invariant w' response)
       \<and> (entities self w = (Inr (entities_attr self), w)
            \<and> total_qr self w = (Inr (total_attr self), w)
            \<and> offset_qr self w = (Inr (offset_attr self), w)
            \<and> iterable self w = (Inr (iterable_attr self), w)
            \<and> first_entity self w = (first_item (list_at w (entities_attr self)), w))
       \<and> (entities_attr self < length (heap w) \<longrightarrow>
            (singular_invariant w self \<longrightarrow>
               singular_invariant (snd (from_single_entity entity w)) self)
            \<and> (list_invariant w self \<longrightarrow>
               list_invariant (snd (query_result_of result w)) self))"
proof -
  have single: "\<exists>qr w'. from_single_entity entity w = (Inr qr, w') \<and> singular_invariant w' qr"
    using singular_invariant_from_single_entity[of entity w]
    by (simp add: from_single_entity_eq)
  have lst: "from_entity_list es t off w = (Inr (init_QueryResult es True t off), w)"
    by (simp add: from_entity_list_def returnW_def)
  have place: "process_place N E request w = (Inr response, w') \<longrightarrow>
      response_invariant singular_invariant w' response"
    using process_place_invariant by blast
  have entity: "process_entity N E request name param_parser key_translations w =
      (Inr response, w') \<longrightarrow> response_invariant list_invariant w' response"
    using process_entity_invariant[OF assms] by blast
  have street: "process_street N E request w = (Inr response, w') \<longrightarrow>
      response_invariant list_invariant w' response"
    using process_street_invariant[OF assms] by blast
  have address: "process_address N E request w = (Inr response, w') \<longrightarrow>
      response_invariant list_invariant w' response"
    using process_address_invariant[OF assms] by blast
  have props: "entities self w = (Inr (entities_attr self), w)
      \<and> total_qr self w = (Inr (total_attr self), w)
      \<and> offset_qr self w = (Inr (offset_attr self), w)
      \<and> iterable self w = (Inr (iterable_attr self), w)
      \<and> first_entity self w = (first_item (list_at w (entities_attr self)), w)"
    by (simp add: entities_def total_qr_def offset_qr_def iterable_def first_entity_def
        returnW_def)
  have stable: "entities_attr self < length (heap w) \<longrightarrow>
      (singular_invariant w self \<longrightarrow>
         singular_invariant (snd (from_single_entity entity w)) self)
      \<and> (list_invariant w self \<longrightarrow>
         list_invariant (snd (query_result_of result w)) self)"
    by (simp add: from_single_entity_eq query_result_of_eq singular_invariant_def
        list_invariant_def list_at_grow)
  show ?thesis
    by (rule conjI[OF single conjI[OF lst conjI[OF place conjI[OF entity conjI[OF street
        conjI[OF address conjI[OF props stable]]]]]]])
qed

theorem QueryResult_invariants_witness:
  "results_bounded example_env
   \<and> list_invariant
       (snd (process_entity georef_names example_env example_get_request ''provincias''
               example_parser example_state_translations world0))
       (init_QueryResult 0 True 1 0)
   \<and> singular_invariant
       (snd (process_place georef_names example_env example_place_request world0))
       (init_QueryResult 0 False 1 0)"
proof -
  note t = QueryResult_invariants [OF example_env_bounded]
  from t [THEN conjunct2, THEN conjunct2, THEN conjunct2, THEN conjunct1, THEN mp,
      OF example_state_run]
  have a: "list_invariant
       (snd (process_entity georef_names example_env example_get_request ''provincias''
               example_parser example_state_translations world0))
       (init_QueryResult 0 True 1 0)"
    by (simp add: response_invariant_def example_state_run)
  from t [THEN conjunct2, THEN conjunct2, THEN conjunct1, THEN mp, OF example_place_run]
  have b: "singular_invariant
       (snd (process_place georef_names example_env example_place_request world0))
       (init_QueryResult 0 False 1 0)"
    by (simp add: response_invariant_def example_place_run)
  from example_env_bounded a b show ?thesis by (intro conjI)
qed

text \<open>
  The claim as first stated fails for a list result built with a total smaller than
  the number of entities of its list: \<open>from_entity_list\<close> builds it all the same.
\<close>

theorem from_entity_list_total_counterexample:
  "from_entity_list 0 0 0 one_entity_world = (Inr (init_QueryResult 0 True 0 0), one_entity_world)
   \<and> list_at one_entity_world (entities_attr (init_QueryResult 0 True 0 0)) = [example_entity]
   \<and> \<not> int (length (list_at one_entity_world (entities_attr (init_QueryResult 0 True 0 0))))
         \<le> total_attr (init_QueryResult 0 True 0 0)"
  by (simp add: from_entity_list_def returnW_def init_QueryResult_def one_entity_world_def
      world0_def list_at_def)

end
